theory Spec2Isabelle
  imports Main "HOL-Library.Sublist" "HOL-Library.AList"
begin

section \<open>JavaScript values used by the sources\<close>

text \<open>
  Strings are \<open>string\<close>. A value that may be \<open>undefined\<close> is an \<open>option\<close>.
  A thrown value or rejection reason is an \<open>err\<close>: a \<open>CordovaError\<close> with its
  message, or any other value, kept as its rendering \<open>String(error)\<close>.
  An object with string keys is an association list of its own properties in insertion
  order (\<open>AList.update\<close> is the definition of a key by a computed key of an object
  literal); the \<open>in\<close> operator also sees the properties that every object inherits from
  \<open>Object.prototype\<close>, a read \<open>obj[k]\<close> is modelled for the keys of the object.
\<close>

datatype err = CordovaError string | Thrown string

text \<open>
  The text an error contributes when interpolated into a template literal: an \<open>Error\<close>
  renders as its name, a colon and its message.
\<close>

fun error_text :: "err \<Rightarrow> string" where
  "error_text (CordovaError m) = ''CordovaError: '' @ m"
| "error_text (Thrown m) = m"

text \<open>Quote characters that the messages of the sources contain.\<close>

definition dq :: string where "dq = [CHR 0x22]"
definition sq :: string where "sq = [CHR 0x27]"
definition bq :: string where "bq = [CHR 0x60]"

type_synonym vars = "(string \<times> string) list"

text \<open>Truthiness of an optional string: \<open>undefined\<close> and \<open>''\<close> are falsy.\<close>

definition truthy :: "string option \<Rightarrow> bool" where
  "truthy v = (case v of None \<Rightarrow> False | Some s \<Rightarrow> s \<noteq> [])"

text \<open>\<open>a || b\<close> on optional strings.\<close>

definition js_or :: "string option \<Rightarrow> string option \<Rightarrow> string option" where
  "js_or a b = (if truthy a then a else b)"

text \<open>\<open>Array.prototype.indexOf\<close>: the first position of the element, or \<open>-1\<close>.\<close>

fun arr_indexOf :: "'a list \<Rightarrow> 'a \<Rightarrow> int" where
  "arr_indexOf [] x = - 1"
| "arr_indexOf (y # ys) x =
     (if y = x then 0
      else (let r = arr_indexOf ys x in if r < 0 then - 1 else r + 1))"

text \<open>\<open>String.prototype.indexOf\<close>: the first position where the pattern occurs, or \<open>-1\<close>.\<close>

fun str_indexOf :: "string \<Rightarrow> string \<Rightarrow> int" where
  "str_indexOf [] p = (if p = [] then 0 else - 1)"
| "str_indexOf (c # cs) p =
     (if prefix p (c # cs) then 0
      else (let r = str_indexOf cs p in if r < 0 then - 1 else r + 1))"

text \<open>\<open>String.prototype.toLowerCase\<close>, on ASCII letters.\<close>

definition lower_char :: "char \<Rightarrow> char" where
  "lower_char c = (let n = (of_char c :: nat) in if 65 \<le> n \<and> n \<le> 90 then char_of (n + 32) else c)"

definition toLowerCase :: "string \<Rightarrow> string" where
  "toLowerCase s = map lower_char s"

text \<open>\<open>spec || name\<close>: the string itself when truthy, the default otherwise.\<close>

definition or_default :: "string option \<Rightarrow> string \<Rightarrow> string" where
  "or_default v d = (case v of None \<Rightarrow> d | Some s \<Rightarrow> if s = [] then d else s)"

text \<open>Whether an object has the key as a property of its own.\<close>

definition has_key :: "string \<Rightarrow> (string \<times> 'v) list \<Rightarrow> bool" where
  "has_key k obj = (k \<in> set (map fst obj))"

text \<open>The names of the properties of \<open>Object.prototype\<close>.\<close>

definition object_prototype_keys :: "string list" where
  "object_prototype_keys =
     [''constructor'', ''__defineGetter__'', ''__defineSetter__'', ''hasOwnProperty'',
      ''__lookupGetter__'', ''__lookupSetter__'', ''isPrototypeOf'', ''propertyIsEnumerable'',
      ''toString'', ''valueOf'', ''__proto__'', ''toLocaleString'']"

text \<open>
  \<open>k in obj\<close> for an object made by a literal or by \<open>Object.assign({}, a, b)\<close>: true of the
  keys of the object and of those it inherits. Then \<open>obj[k]\<close> for a key of its own,
  \<open>Object.keys(obj)\<close> and \<open>Object.assign({}, a, b)\<close>.
\<close>

definition js_in :: "string \<Rightarrow> (string \<times> 'v) list \<Rightarrow> bool" where
  "js_in k obj = (has_key k obj \<or> List.member object_prototype_keys k)"

definition obj_get :: "(string \<times> 'v) list \<Rightarrow> string \<Rightarrow> 'v option" where
  "obj_get obj k = map_of obj k"

definition obj_keys :: "(string \<times> 'v) list \<Rightarrow> string list" where
  "obj_keys obj = map fst obj"

definition obj_assign :: "(string \<times> 'v) list \<Rightarrow> (string \<times> 'v) list \<Rightarrow> (string \<times> 'v) list" where
  "obj_assign a b = foldl (\<lambda>acc kv. AList.update (fst kv) (snd kv) acc) a b"

text \<open>\<open>path.join\<close> of segments that need no normalisation.\<close>

fun path_join :: "string list \<Rightarrow> string" where
  "path_join [] = ''.''"
| "path_join [a] = a"
| "path_join (a # b # rest) = a @ ''/'' @ path_join (b # rest)"


section \<open>The two configuration stores\<close>

text \<open>
  The project descriptor \<open>config.xml\<close>, as far as the sources read it through
  cordova-common's \<open>ConfigParser\<close>: \<open>packageName()\<close>, \<open>version()\<close>, \<open>name()\<close>,
  \<open>getEngines()\<close> (elements \<open>{name, spec}\<close>), \<open>getPluginIdList()\<close> and
  \<open>getPlugin(id)\<close> (\<open>{name, spec, variables}\<close>). \<open>cfg_plugins\<close> are the plugin
  declarations in document order; one without a name has the empty name.
\<close>

record engine =
  eng_name :: string
  eng_spec :: "string option"

record plugin_decl =
  plg_name :: string
  plg_spec :: "string option"
  plg_variables :: vars

record config_xml =
  cfg_packageName :: "string option"
  cfg_version :: "string option"
  cfg_name :: "string option"
  cfg_engines :: "engine list"
  cfg_plugins :: "plugin_decl list"

definition getPluginIdList :: "config_xml \<Rightarrow> string list" where
  "getPluginIdList cfg = map plg_name (cfg_plugins cfg)"

text \<open>
  \<open>getPlugin(id)\<close> starts with \<open>if (!id) return undefined\<close> and then takes the first
  \<open>plugin\<close> element of that name.
\<close>

definition getPlugin :: "config_xml \<Rightarrow> string \<Rightarrow> plugin_decl option" where
  "getPlugin cfg plID =
     (if plID = [] then None else find (\<lambda>p. plg_name p = plID) (cfg_plugins cfg))"

text \<open>
  The package manifest \<open>package.json\<close>: the content of the object that
  \<open>cordova_util.loadPackageJson\<close> resolves to, with \<open>content.cordova.platforms\<close> and
  \<open>content.cordova.plugins\<close> present. An absent dependency object is the empty one.
\<close>

record pkg_content =
  pkg_name :: "string option"
  pkg_version :: "string option"
  pkg_displayName :: "string option"
  pkg_platforms :: "string list"
  pkg_plugins :: "(string \<times> vars) list"
  pkg_dependencies :: "(string \<times> string) list"
  pkg_devDependencies :: "(string \<times> string) list"

section \<open>Promises and the state of the process\<close>

datatype 'a settled = Resolved 'a | Rejected err

text \<open>The calls to collaborators that the properties below are about, in the order made.\<close>

datatype call =
    Fire string
  | PlatformAdd string
  | PluginAdd string vars
  | SavePackageJson pkg_content
  | UninstallPlatform string string
  | UninstallPlugin string
  | CfgRemovePlugin string
  | PkgRemovePlugin string
  | RemoveFetchMetadata string
  | PreparePlatforms "string list"
  | RmSync string
  | RemovePlatformPluginsJson string
  | CfgRemoveEngine string
  | SavePlatforms "string list"
  | NpmUninstall string

text \<open>
  \<open>world\<close> is everything outside the process (file system, dependency directory);
  \<open>events\<close> is what was emitted on \<open>events\<close>, as (channel, message);
  \<open>exitCode\<close> is \<open>process.exitCode\<close> (0 while unset);
  \<open>itemName\<close> is the closure variable \<open>platformName\<close> / \<open>pluginName\<close> of a restore,
  \<open>shouldRunPrepare\<close> the closure variable of a plugin removal;
  \<open>failures\<close> is written by \<open>Q_chainmap\<close> below under one of its two readings only.
\<close>

record 'w proc =
  world :: 'w
  calls :: "call list"
  events :: "(string \<times> string) list"
  exitCode :: nat
  itemName :: string
  shouldRunPrepare :: bool
  failures :: "(string \<times> err) list"

type_synonym ('w, 'a) act = "'w proc \<Rightarrow> 'a settled \<times> 'w proc"

text \<open>\<open>p.then(f)\<close>: a rejection passes through.\<close>

definition andThen :: "('w, 'a) act \<Rightarrow> ('a \<Rightarrow> ('w, 'b) act) \<Rightarrow> ('w, 'b) act" where
  "andThen m f s = (case m s of (Resolved a, s') \<Rightarrow> f a s' | (Rejected e, s') \<Rightarrow> (Rejected e, s'))"

text \<open>\<open>p.then(f, g)\<close> on a settled promise: \<open>f\<close> when fulfilled, \<open>g\<close> when rejected.\<close>

definition then2 ::
  "'a settled \<times> 'w proc \<Rightarrow> ('a \<Rightarrow> ('w, 'b) act) \<Rightarrow> (err \<Rightarrow> ('w, 'b) act) \<Rightarrow> 'b settled \<times> 'w proc" where
  "then2 p f g = (case p of (Resolved a, s) \<Rightarrow> f a s | (Rejected e, s) \<Rightarrow> g e s)"

definition resolve :: "'a \<Rightarrow> ('w, 'a) act" where
  "resolve a s = (Resolved a, s)"

definition reject :: "err \<Rightarrow> ('w, 'a) act" where
  "reject e s = (Rejected e, s)"

definition emit :: "string \<Rightarrow> string \<Rightarrow> ('w, unit) act" where
  "emit channel msg s = (Resolved (), s\<lparr>events := events s @ [(channel, msg)]\<rparr>)"

text \<open>A call to a collaborator that may change the world: logged, then run.\<close>

definition invoke :: "call \<Rightarrow> ('w \<Rightarrow> 'a settled \<times> 'w) \<Rightarrow> ('w, 'a) act" where
  "invoke c p s = (case p (world s) of (r, w) \<Rightarrow> (r, s\<lparr>world := w, calls := calls s @ [c]\<rparr>))"

text \<open>A read of the world that may throw.\<close>

definition query :: "('w \<Rightarrow> 'a settled) \<Rightarrow> ('w, 'a) act" where
  "query q s = (q (world s), s)"


section \<open>Restore: \<open>src/cordova/restore-util.js\<close>\<close>

text \<open>
  Collaborators of a restore. \<open>re_platformAdd\<close> is \<open>cordovaPlatform('add', installFrom, opts)\<close>,
  \<open>re_pluginAdd\<close> is \<open>plugin('add', installFrom, options)\<close> with the \<open>cli_variables\<close> of the
  options; \<open>re_validRange\<close> is the truthiness of \<open>semver.validRange(spec, true)\<close>.
\<close>

record 'w restore_env =
  re_projectRoot :: string
  re_readConfig :: "'w \<Rightarrow> config_xml settled"
  re_loadPackageJson :: "'w \<Rightarrow> pkg_content settled"
  re_savePackageJson :: "pkg_content \<Rightarrow> 'w \<Rightarrow> unit settled \<times> 'w"
  re_existsSync :: "'w \<Rightarrow> string \<Rightarrow> bool"
  re_validRange :: "string \<Rightarrow> bool"
  re_platformAdd :: "string \<Rightarrow> 'w \<Rightarrow> unit settled \<times> 'w"
  re_pluginAdd :: "string \<Rightarrow> vars \<Rightarrow> 'w \<Rightarrow> unit settled \<times> 'w"

subsection \<open>Reconciling the platforms (lines 31--97, 133--136)\<close>

text \<open>
  \<open>pkgJson.update(partial)\<close> overlays the top-level keys that \<open>partial\<close> has.
  Lines 43--53: \<open>configToPkgJson\<close> gets a key for each front-matter field that is truthy in
  \<open>config.xml\<close>, and is then overlaid on the manifest.
\<close>

definition front_matter :: "config_xml \<Rightarrow> pkg_content \<Rightarrow> pkg_content" where
  "front_matter cfg pkg =
     (let p1 = (if truthy (cfg_packageName cfg)
                then pkg\<lparr>pkg_name := Some (toLowerCase (or_default (cfg_packageName cfg) []))\<rparr> else pkg);
          p2 = (if truthy (cfg_version cfg) then p1\<lparr>pkg_version := cfg_version cfg\<rparr> else p1);
          p3 = (if truthy (cfg_name cfg) then p2\<lparr>pkg_displayName := cfg_name cfg\<rparr> else p2)
      in p3)"

definition platformModule :: "string \<Rightarrow> string" where
  "platformModule name = (if prefix ''cordova-'' name then name else ''cordova-'' @ name)"

text \<open>The test of line 66, on the lists read before the loop.\<close>

definition engine_migrates :: "string list \<Rightarrow> (string \<times> string) list \<Rightarrow> engine \<Rightarrow> bool" where
  "engine_migrates pkgPlatforms pkgSpecs e =
     (\<not> List.member pkgPlatforms (eng_name e)
      \<or> (truthy (eng_spec e) \<and> \<not> js_in (platformModule (eng_name e)) pkgSpecs))"

text \<open>One round of the \<open>forEach\<close> of lines 61--89, on the manifest's working copy.\<close>

definition migrate_engine ::
  "string list \<Rightarrow> (string \<times> string) list \<Rightarrow> pkg_content \<Rightarrow> engine \<Rightarrow> pkg_content" where
  "migrate_engine pkgPlatforms pkgSpecs pkg e =
     (if engine_migrates pkgPlatforms pkgSpecs e then
        (let p1 = (if truthy (eng_spec e) \<and> \<not> js_in (platformModule (eng_name e)) pkgSpecs
                   then pkg\<lparr>pkg_devDependencies :=
                          AList.update (platformModule (eng_name e)) (or_default (eng_spec e) [])
                            (pkg_devDependencies pkg)\<rparr>
                   else pkg);
             p2 = (if \<not> List.member pkgPlatforms (eng_name e)
                   then p1\<lparr>pkg_platforms := pkg_platforms p1 @ [eng_name e]\<rparr> else p1)
         in p2)
      else pkg)"

definition migrate_platforms :: "config_xml \<Rightarrow> pkg_content \<Rightarrow> pkg_content" where
  "migrate_platforms cfg pkg =
     (let pkgPlatforms = pkg_platforms pkg;
          pkgSpecs = obj_assign (pkg_dependencies pkg) (pkg_devDependencies pkg)
      in foldl (migrate_engine pkgPlatforms pkgSpecs) pkg (cfg_engines cfg))"

definition platform_info_msgs :: "config_xml \<Rightarrow> pkg_content \<Rightarrow> (string \<times> string) list" where
  "platform_info_msgs cfg pkg =
     map (\<lambda>e. (''info'', ''Platform '' @ sq @ eng_name e @ sq
                 @ '' found in config.xml... Migrating it to package.json''))
       (filter (engine_migrates (pkg_platforms pkg)
                 (obj_assign (pkg_dependencies pkg) (pkg_devDependencies pkg)))
          (cfg_engines cfg))"

text \<open>Lines 92--97: the items to restore, read back from the manifest's working copy.\<close>

definition platformInfo :: "pkg_content \<Rightarrow> (string \<times> string option) list" where
  "platformInfo pkg =
     (let specs = obj_assign (pkg_dependencies pkg) (pkg_devDependencies pkg)
      in map (\<lambda>plID. (plID, js_or (obj_get specs (''cordova-'' @ plID)) (obj_get specs plID)))
           (pkg_platforms pkg))"

text \<open>
  The part of \<open>installPlatformsFromConfigXML\<close> before the fold: it resolves to the
  manifest's working copy. The \<open>info\<close> events of the loop are emitted in the loop's order.
\<close>

definition reconcile_platforms :: "'w restore_env \<Rightarrow> ('w, pkg_content) act" where
  "reconcile_platforms env =
     andThen (emit ''verbose'' (''Checking for saved platforms that haven'' @ sq @ ''t been added to the project''))
     (\<lambda>_. andThen (query (re_readConfig env))
     (\<lambda>cfg. andThen (query (re_loadPackageJson env))
     (\<lambda>pkg0.
        let pkg1 = front_matter cfg pkg0;
            pkgPlatforms = pkg_platforms pkg1;
            pkg2 = migrate_platforms cfg pkg1;
            platformIDs = pkg_platforms pkg2
        in andThen (\<lambda>s. (Resolved (), s\<lparr>events := events s @ platform_info_msgs cfg pkg1\<rparr>))
           (\<lambda>_. andThen
              (if length platformIDs \<noteq> length pkgPlatforms
               then invoke (SavePackageJson pkg2) (re_savePackageJson env pkg2)
               else resolve ())
           (\<lambda>_. resolve pkg2)))))"

subsection \<open>Reconciling the plugins (lines 147--200, 241--244)\<close>

definition plugin_migrates :: "string list \<Rightarrow> string \<Rightarrow> bool" where
  "plugin_migrates pkgPluginIDs plID = (\<not> List.member pkgPluginIDs plID)"

text \<open>
  One round of the \<open>forEach\<close> of lines 162--191. When \<open>cfg.getPlugin(plID)\<close> is
  \<open>undefined\<close>, reading \<open>.spec\<close> of it (line 172) throws a \<open>TypeError\<close>, which ends the loop
  and rejects the promise of the \<open>async\<close> function: nothing is saved.
\<close>

definition migrate_plugin ::
  "config_xml \<Rightarrow> string list \<Rightarrow> (string \<times> string) list \<Rightarrow> pkg_content \<Rightarrow> string \<Rightarrow> err + pkg_content" where
  "migrate_plugin cfg pkgPluginIDs pkgSpecs pkg plID =
     (if plugin_migrates pkgPluginIDs plID then
        (case getPlugin cfg plID of
           None \<Rightarrow> Inl (Thrown ''TypeError: Cannot read properties of undefined'')
         | Some cfgPlugin \<Rightarrow>
            (let p1 = (if truthy (plg_spec cfgPlugin) \<and> \<not> js_in plID pkgSpecs
                       then pkg\<lparr>pkg_devDependencies :=
                              AList.update plID (or_default (plg_spec cfgPlugin) []) (pkg_devDependencies pkg)\<rparr>
                       else pkg);
                 p2 = p1\<lparr>pkg_plugins := AList.update plID (plg_variables cfgPlugin) (pkg_plugins p1)\<rparr>
             in Inr p2))
      else Inr pkg)"

fun migrate_plugins_loop ::
  "config_xml \<Rightarrow> string list \<Rightarrow> (string \<times> string) list \<Rightarrow> pkg_content \<Rightarrow> string list \<Rightarrow> err + pkg_content" where
  "migrate_plugins_loop cfg ids specs pkg [] = Inr pkg"
| "migrate_plugins_loop cfg ids specs pkg (plID # rest) =
     (case migrate_plugin cfg ids specs pkg plID of
        Inl e \<Rightarrow> Inl e
      | Inr pkg' \<Rightarrow> migrate_plugins_loop cfg ids specs pkg' rest)"

definition migrate_plugins :: "config_xml \<Rightarrow> pkg_content \<Rightarrow> err + pkg_content" where
  "migrate_plugins cfg pkg =
     migrate_plugins_loop cfg (obj_keys (pkg_plugins pkg))
       (obj_assign (pkg_dependencies pkg) (pkg_devDependencies pkg)) pkg (getPluginIdList cfg)"

text \<open>
  The round that throws, if any: the first id that the manifest lacks and for which
  \<open>getPlugin\<close> gives \<open>undefined\<close>. Its \<open>info\<close> event (line 166) was emitted before line 172.
\<close>

definition plugin_throws :: "config_xml \<Rightarrow> string list \<Rightarrow> string \<Rightarrow> bool" where
  "plugin_throws cfg pkgPluginIDs plID = (plugin_migrates pkgPluginIDs plID \<and> getPlugin cfg plID = None)"

definition plugin_info_msgs_thrown :: "config_xml \<Rightarrow> pkg_content \<Rightarrow> (string \<times> string) list" where
  "plugin_info_msgs_thrown cfg pkg =
     map (\<lambda>plID. (''info'', ''Plugin '' @ sq @ plID @ sq
                 @ '' found in config.xml... Migrating it to package.json''))
       (filter (plugin_migrates (obj_keys (pkg_plugins pkg)))
          (takeWhile (\<lambda>plID. \<not> plugin_throws cfg (obj_keys (pkg_plugins pkg)) plID) (getPluginIdList cfg)
           @ take 1 (dropWhile (\<lambda>plID. \<not> plugin_throws cfg (obj_keys (pkg_plugins pkg)) plID)
                       (getPluginIdList cfg))))"

definition plugin_info_msgs :: "config_xml \<Rightarrow> pkg_content \<Rightarrow> (string \<times> string) list" where
  "plugin_info_msgs cfg pkg =
     map (\<lambda>plID. (''info'', ''Plugin '' @ sq @ plID @ sq
                 @ '' found in config.xml... Migrating it to package.json''))
       (filter (plugin_migrates (obj_keys (pkg_plugins pkg))) (getPluginIdList cfg))"

text \<open>Lines 194--200: the items to restore.\<close>

definition pluginInfo :: "pkg_content \<Rightarrow> (string \<times> string option \<times> vars) list" where
  "pluginInfo pkg =
     (let specs = obj_assign (pkg_dependencies pkg) (pkg_devDependencies pkg)
      in map (\<lambda>plID. (plID, obj_get specs plID,
                      (case obj_get (pkg_plugins pkg) plID of None \<Rightarrow> [] | Some v \<Rightarrow> v)))
           (obj_keys (pkg_plugins pkg)))"

definition reconcile_plugins :: "'w restore_env \<Rightarrow> ('w, pkg_content) act" where
  "reconcile_plugins env =
     andThen (emit ''verbose'' (''Checking for saved plugins that haven'' @ sq @ ''t been added to the project''))
     (\<lambda>_. andThen (query (re_loadPackageJson env))
     (\<lambda>pkg0. andThen (query (re_readConfig env))
     (\<lambda>cfg.
        case migrate_plugins cfg pkg0 of
          Inl e \<Rightarrow>
            andThen (\<lambda>s. (Resolved (), s\<lparr>events := events s @ plugin_info_msgs_thrown cfg pkg0\<rparr>))
            (\<lambda>_. reject e)
        | Inr pkg2 \<Rightarrow>
            andThen (\<lambda>s. (Resolved (), s\<lparr>events := events s @ plugin_info_msgs cfg pkg0\<rparr>))
            (\<lambda>_. andThen
               (if length (obj_keys (pkg_plugins pkg2)) \<noteq> length (obj_keys (pkg_plugins pkg0))
                then invoke (SavePackageJson pkg2) (re_savePackageJson env pkg2)
                else resolve ())
            (\<lambda>_. resolve pkg2)))))"

subsection \<open>The install source (lines 111--118 and 215--221)\<close>

definition installFrom :: "(string \<Rightarrow> bool) \<Rightarrow> string \<Rightarrow> string option \<Rightarrow> string" where
  "installFrom valid name spec =
     (let installFrom0 = or_default spec name
      in if truthy spec \<and> valid (or_default spec []) then name @ ''@'' @ or_default spec []
         else installFrom0)"

subsection \<open>The serial fold (lines 98--143 and 202--252)\<close>

definition installAllPlatforms :: "string list option \<Rightarrow> bool" where
  "installAllPlatforms platforms = (case platforms of None \<Rightarrow> True | Some ps \<Rightarrow> length ps = 0)"

definition platform_excluded :: "string list option \<Rightarrow> string \<Rightarrow> bool" where
  "platform_excluded platforms name =
     (\<not> installAllPlatforms platforms
      \<and> (case platforms of None \<Rightarrow> False | Some ps \<Rightarrow> \<not> List.member ps name))"

definition restoreCallback_platform ::
  "'w restore_env \<Rightarrow> string list option \<Rightarrow> (string \<times> string option) \<Rightarrow> ('w, unit) act" where
  "restoreCallback_platform env platforms platform s =
     (let s1 = s\<lparr>itemName := fst platform\<rparr>;
          platformPath = path_join [path_join [re_projectRoot env, ''platforms''], itemName s1]
      in if re_existsSync env (world s1) platformPath \<or> platform_excluded platforms (itemName s1)
         then resolve () s1
         else andThen (emit ''log'' (''Discovered platform '' @ dq @ itemName s1 @ dq @ ''. Adding it to the project''))
              (\<lambda>_. invoke (PlatformAdd (installFrom (re_validRange env) (itemName s1) (snd platform)))
                      (re_platformAdd env (installFrom (re_validRange env) (itemName s1) (snd platform))))
              s1)"

definition errCallback_platform :: "err \<Rightarrow> ('w, unit) act" where
  "errCallback_platform error s =
     (let msg = ''Failed to restore platform '' @ dq @ itemName s @ dq
                @ ''. You might need to try adding it again. Error: '' @ error_text error;
          s1 = s\<lparr>exitCode := 1\<rparr>
      in andThen (emit ''warn'' msg) (\<lambda>_. reject error) s1)"

definition restoreCallback_plugin ::
  "'w restore_env \<Rightarrow> (string \<times> string option \<times> vars) \<Rightarrow> ('w, unit) act" where
  "restoreCallback_plugin env pluginConfig s =
     (let s1 = s\<lparr>itemName := fst pluginConfig\<rparr>;
          pluginPath = path_join [path_join [re_projectRoot env, ''plugins''], itemName s1]
      in if re_existsSync env (world s1) pluginPath
         then resolve () s1
         else andThen (emit ''log'' (''Discovered plugin '' @ dq @ itemName s1 @ dq @ ''. Adding it to the project''))
              (\<lambda>_. invoke (PluginAdd (installFrom (re_validRange env) (itemName s1) (fst (snd pluginConfig)))
                              (snd (snd pluginConfig)))
                      (re_pluginAdd env (installFrom (re_validRange env) (itemName s1) (fst (snd pluginConfig)))
                              (snd (snd pluginConfig))))
              s1)"

definition errCallback_plugin :: "err \<Rightarrow> ('w, unit) act" where
  "errCallback_plugin error s =
     (let msg = ''Failed to restore plugin '' @ dq @ itemName s @ dq
                @ ''. You might need to try adding it again. Error: '' @ error_text error;
          s1 = s\<lparr>exitCode := 1\<rparr>
      in emit ''warn'' msg s1)"

text \<open>
  \<open>items.reduce((soFar, item) => soFar.then(() => restoreCallback(item), errCallback), Promise.resolve())\<close>
\<close>

definition restore_fold ::
  "('a \<Rightarrow> ('w, unit) act) \<Rightarrow> (err \<Rightarrow> ('w, unit) act) \<Rightarrow> 'a list \<Rightarrow> ('w, unit) act" where
  "restore_fold restoreCallback errCallback items s =
     foldl (\<lambda>soFar item. then2 soFar (\<lambda>_. restoreCallback item) errCallback) (Resolved (), s) items"

definition installPlatformsFromConfigXML ::
  "'w restore_env \<Rightarrow> string list option \<Rightarrow> ('w, unit) act" where
  "installPlatformsFromConfigXML env platforms =
     andThen (reconcile_platforms env)
       (\<lambda>pkg s. restore_fold (restoreCallback_platform env platforms) errCallback_platform
                  (platformInfo pkg) (s\<lparr>itemName := []\<rparr>))"

definition installPluginsFromConfigXML :: "'w restore_env \<Rightarrow> ('w, unit) act" where
  "installPluginsFromConfigXML env =
     andThen (reconcile_plugins env)
       (\<lambda>pkg s. restore_fold (restoreCallback_plugin env) errCallback_plugin
                  (pluginInfo pkg) (s\<lparr>itemName := []\<rparr>))"

section \<open>Plugin removal: \<open>src/cordova/plugin/remove.js\<close>\<close>

subsection \<open>\<open>validatePluginId\<close>\<close>

text \<open>
  \<^verbatim>\<open>
  function validatePluginId (pluginId, installedPlugins) {
      if (installedPlugins.indexOf(pluginId) >= 0) return pluginId;
      if (pluginId.indexOf('cordova-plugin-') < 0)
          return validatePluginId('cordova-plugin-' + pluginId, installedPlugins);
  }
  \<close>
  Falling off the end returns \<open>undefined\<close>, here \<open>None\<close>. The recursion is the
  source's; it ends because the prefixed name contains the prefix.
\<close>

function validatePluginId :: "string \<Rightarrow> string list \<Rightarrow> string option" where
  "validatePluginId pluginId installedPlugins =
     (if arr_indexOf installedPlugins pluginId \<ge> 0 then Some pluginId
      else if str_indexOf pluginId ''cordova-plugin-'' < 0
        then validatePluginId (''cordova-plugin-'' @ pluginId) installedPlugins
      else None)"
  by pat_completeness auto
termination
  by (relation "measure (\<lambda>(p, _). if str_indexOf p ''cordova-plugin-'' < 0 then 1 else 0)") simp_all

declare validatePluginId.simps [simp del]

subsection \<open>\<open>Q_chainmap\<close>\<close>

text \<open>
  Modelled from the spec: \<open>Q_chainmap\<close> of \<open>src/util/promise-util.js\<close>, which the removal
  commands import, is not among the sources. It runs \<open>func\<close> over the items one at a time,
  in order, each call starting when the one before has settled (spec, section 5). What it
  does with an item whose promise is rejected cannot be read off its callers, so both
  readings are kept, selected by a parameter: \<open>StopAtRejection\<close> is a plain promise chain
  (the rejection ends the chain and is the chain's result); \<open>IsolateRejections\<close> is the
  fold with isolation that section 4.7 of the spec words (the failure is recorded with the
  item, the process is marked failed, the chain goes on and resolves).
\<close>

datatype chain_policy = StopAtRejection | IsolateRejections

fun Q_chainmap :: "chain_policy \<Rightarrow> string list \<Rightarrow> (string \<Rightarrow> ('w, unit) act) \<Rightarrow> ('w, unit) act" where
  "Q_chainmap pol [] func s = (Resolved (), s)"
| "Q_chainmap pol (x # xs) func s =
     (case func x s of
        (Resolved _, s') \<Rightarrow> Q_chainmap pol xs func s'
      | (Rejected e, s') \<Rightarrow>
          (case pol of
             StopAtRejection \<Rightarrow> (Rejected e, s')
           | IsolateRejections \<Rightarrow>
               Q_chainmap pol xs func (s'\<lparr>failures := failures s' @ [(x, e)], exitCode := 1\<rparr>)))"

subsection \<open>\<open>remove\<close> and its inner functions\<close>

text \<open>
  Collaborators of a plugin removal, each named after the call it stands for:
  \<open>rm_pluginInfo\<close> is \<open>new PluginInfoProvider().get(directory)\<close> (rejected when it throws),
  \<open>rm_cfgGetPlugin\<close> is \<open>new ConfigParser(configPath).getPlugin(target)\<close> as a truth value,
  \<open>rm_cfgRemovePlugin\<close> is \<open>configXml.removePlugin(target); configXml.write()\<close>,
  \<open>rm_pkgHasPlugin\<close> is \<open>loadPackageJson\<close> followed by the test \<open>plugins[target]\<close>,
  \<open>rm_pkgRemovePlugin\<close> is the \<open>update\<close> without the key followed by \<open>save\<close>.
\<close>

record 'w rm_env =
  rm_binname :: string
  rm_findPlugins :: "'w \<Rightarrow> string list"
  rm_listPlatforms :: "'w \<Rightarrow> string list"
  rm_parseConfig :: "'w \<Rightarrow> unit settled"
  rm_fire :: "string \<Rightarrow> 'w \<Rightarrow> unit settled \<times> 'w"
  rm_pluginInfo :: "string \<Rightarrow> 'w \<Rightarrow> unit settled"
  rm_mergeVariables :: "string \<Rightarrow> 'w \<Rightarrow> vars settled"
  rm_uninstallPlatform :: "string \<Rightarrow> string \<Rightarrow> vars \<Rightarrow> 'w \<Rightarrow> bool settled \<times> 'w"
  rm_uninstallPlugin :: "string \<Rightarrow> 'w \<Rightarrow> unit settled \<times> 'w"
  rm_configExists :: "'w \<Rightarrow> bool"
  rm_cfgGetPlugin :: "string \<Rightarrow> 'w \<Rightarrow> bool settled"
  rm_cfgRemovePlugin :: "string \<Rightarrow> 'w \<Rightarrow> unit settled \<times> 'w"
  rm_pkgHasPlugin :: "string \<Rightarrow> 'w \<Rightarrow> bool settled"
  rm_pkgRemovePlugin :: "string \<Rightarrow> 'w \<Rightarrow> unit settled \<times> 'w"
  rm_removeFetchMetadata :: "string \<Rightarrow> 'w \<Rightarrow> unit settled \<times> 'w"
  rm_preparePlatforms :: "string list \<Rightarrow> 'w \<Rightarrow> unit settled \<times> 'w"

record rm_opts =
  opt_plugins :: "string list"
  opt_save :: bool

text \<open>Lines 92--116.\<close>

definition removePluginFromPlatform :: "'w rm_env \<Rightarrow> string \<Rightarrow> string \<Rightarrow> ('w, unit) act" where
  "removePluginFromPlatform env target platform =
     andThen (query (rm_pluginInfo env target))
     (\<lambda>_. andThen (emit ''verbose'' (''Calling plugman.uninstall on plugin '' @ dq @ target @ dq
                                     @ '' for platform '' @ dq @ platform @ dq))
     (\<lambda>_. andThen (query (rm_mergeVariables env target))
     (\<lambda>variables. andThen (invoke (UninstallPlatform platform target)
                             (rm_uninstallPlatform env platform target variables))
     (\<lambda>didPrepare s. (Resolved (), if \<not> didPrepare then s\<lparr>shouldRunPrepare := True\<rparr> else s)))))"

text \<open>Lines 118--129.\<close>

definition persistRemovalToCfg :: "'w rm_env \<Rightarrow> string \<Rightarrow> ('w, unit) act" where
  "persistRemovalToCfg env target s =
     (if rm_configExists env (world s) then
        andThen (query (rm_cfgGetPlugin env target))
          (\<lambda>found. if found
             then andThen (emit ''log'' (''Removing plugin '' @ target @ '' from config.xml file...''))
                    (\<lambda>_. invoke (CfgRemovePlugin target) (rm_cfgRemovePlugin env target))
             else resolve ())
          s
      else resolve () s)"

text \<open>Lines 131--150.\<close>

definition persistRemovalToPkg :: "'w rm_env \<Rightarrow> string \<Rightarrow> ('w, unit) act" where
  "persistRemovalToPkg env target =
     andThen (query (rm_pkgHasPlugin env target))
       (\<lambda>found. if found
          then andThen (emit ''log'' (''Removing plugin '' @ dq @ target @ dq @ '' from package.json''))
                 (\<lambda>_. invoke (PkgRemovePlugin target) (rm_pkgRemovePlugin env target))
          else resolve ())"

text \<open>
  Lines 62--90: \<open>removePlugin\<close> is a chain of five \<open>then\<close> callbacks, here \<open>rp_validate\<close>
  (which resolves to the value that the callback assigns to \<open>target\<close>), \<open>rp_platforms\<close>,
  \<open>rp_uninstall\<close>, \<open>rp_persist\<close> and \<open>rp_metadata\<close>. \<open>plugins\<close> and \<open>platformList\<close> are the
  lists \<open>remove\<close> read at its start.
\<close>

definition rp_validate :: "'w rm_env \<Rightarrow> string list \<Rightarrow> string \<Rightarrow> ('w, string) act" where
  "rp_validate env plugins target0 =
     (case validatePluginId target0 plugins of
        None \<Rightarrow> reject (CordovaError (''Plugin '' @ dq @ target0 @ dq
                   @ '' is not present in the project. See '' @ bq @ rm_binname env
                   @ '' plugin list'' @ bq @ ''.''))
      | Some validatedPluginId \<Rightarrow> resolve validatedPluginId)"

definition rp_platforms :: "'w rm_env \<Rightarrow> chain_policy \<Rightarrow> string list \<Rightarrow> string \<Rightarrow> ('w, unit) act" where
  "rp_platforms env pol platformList target =
     Q_chainmap pol platformList (\<lambda>platform. removePluginFromPlatform env target platform)"

definition rp_uninstall :: "'w rm_env \<Rightarrow> string \<Rightarrow> ('w, unit) act" where
  "rp_uninstall env target = invoke (UninstallPlugin target) (rm_uninstallPlugin env target)"

definition rp_persist :: "'w rm_env \<Rightarrow> rm_opts \<Rightarrow> string \<Rightarrow> ('w, unit) act" where
  "rp_persist env opts target =
     (if \<not> opt_save opts then resolve ()
      else andThen (persistRemovalToCfg env target) (\<lambda>_. persistRemovalToPkg env target))"

definition rp_metadata :: "'w rm_env \<Rightarrow> string \<Rightarrow> ('w, unit) act" where
  "rp_metadata env target =
     andThen (emit ''verbose'' (''Removing plugin '' @ target @ '' from fetch.json''))
       (\<lambda>_. invoke (RemoveFetchMetadata target) (rm_removeFetchMetadata env target))"

definition removePlugin ::
  "'w rm_env \<Rightarrow> chain_policy \<Rightarrow> rm_opts \<Rightarrow> string list \<Rightarrow> string list \<Rightarrow> string \<Rightarrow> ('w, unit) act" where
  "removePlugin env pol opts plugins platformList target0 =
     andThen (rp_validate env plugins target0)
     (\<lambda>target. andThen (rp_platforms env pol platformList target)
     (\<lambda>_. andThen (rp_uninstall env target)
     (\<lambda>_. andThen (rp_persist env opts target)
     (\<lambda>_. rp_metadata env target))))"

text \<open>Lines 36--60. A synchronous throw before the chain starts is a rejection here.\<close>

definition remove ::
  "'w rm_env \<Rightarrow> chain_policy \<Rightarrow> string list option \<Rightarrow> rm_opts \<Rightarrow> ('w, unit) act" where
  "remove env pol targets opts s =
     (if (case targets of None \<Rightarrow> True | Some ts \<Rightarrow> length ts = 0) then
        reject (CordovaError (''No plugin specified. Please specify a plugin to remove. See: ''
                  @ rm_binname env @ '' plugin list.'')) s
      else
        (let plugins = rm_findPlugins env (world s);
             platformList = rm_listPlatforms env (world s);
             s0 = s\<lparr>shouldRunPrepare := False\<rparr>
         in andThen (query (rm_parseConfig env))
            (\<lambda>_. andThen (invoke (Fire ''before_plugin_rm'') (rm_fire env ''before_plugin_rm''))
            (\<lambda>_. andThen (Q_chainmap pol (opt_plugins opts) (removePlugin env pol opts plugins platformList))
            (\<lambda>_. andThen (\<lambda>s'. if \<not> shouldRunPrepare s' then resolve () s'
                               else invoke (PreparePlatforms platformList)
                                      (rm_preparePlatforms env platformList) s')
            (\<lambda>_. invoke (Fire ''after_plugin_rm'') (rm_fire env ''after_plugin_rm'')))))
            s0))"

section \<open>Platform removal: \<open>src/unnamed/part_000\<close>\<close>

















section \<open>Concrete environments for the examples\<close>

text \<open>A process that has done nothing yet, over a world without content.\<close>

definition proc0 :: "unit proc" where
  "proc0 = \<lparr>world = (), calls = [], events = [], exitCode = 0, itemName = [],
            shouldRunPrepare = False, failures = []\<rparr>"

text \<open>
  A project with the given installed plugins and platforms in which every collaborator of
  a plugin removal succeeds; \<open>config.xml\<close> is absent and the manifest lacks the plugin.
\<close>

definition rm_env_ok :: "string list \<Rightarrow> string list \<Rightarrow> unit rm_env" where
  "rm_env_ok installed platforms =
     \<lparr>rm_binname = ''cordova'',
      rm_findPlugins = (\<lambda>_. installed),
      rm_listPlatforms = (\<lambda>_. platforms),
      rm_parseConfig = (\<lambda>_. Resolved ()),
      rm_fire = (\<lambda>_ w. (Resolved (), w)),
      rm_pluginInfo = (\<lambda>_ _. Resolved ()),
      rm_mergeVariables = (\<lambda>_ _. Resolved []),
      rm_uninstallPlatform = (\<lambda>_ _ _ w. (Resolved True, w)),
      rm_uninstallPlugin = (\<lambda>_ w. (Resolved (), w)),
      rm_configExists = (\<lambda>_. False),
      rm_cfgGetPlugin = (\<lambda>_ _. Resolved False),
      rm_cfgRemovePlugin = (\<lambda>_ w. (Resolved (), w)),
      rm_pkgHasPlugin = (\<lambda>_ _. Resolved False),
      rm_pkgRemovePlugin = (\<lambda>_ w. (Resolved (), w)),
      rm_removeFetchMetadata = (\<lambda>_ w. (Resolved (), w)),
      rm_preparePlatforms = (\<lambda>_ w. (Resolved (), w))\<rparr>"

text \<open>
  A file system for the restore examples: the two stores and the paths that exist. Every
  install whose source is listed in \<open>failing\<close> rejects; \<open>re_validRange\<close> accepts what starts
  with a digit, \<open>^\<close> or \<open>~\<close>.
\<close>

record fsx =
  fs_cfg :: config_xml
  fs_pkg :: pkg_content
  fs_paths :: "string list"

definition re_env_ex :: "string list \<Rightarrow> fsx restore_env" where
  "re_env_ex failing =
     \<lparr>re_projectRoot = ''/app'',
      re_readConfig = (\<lambda>w. Resolved (fs_cfg w)),
      re_loadPackageJson = (\<lambda>w. Resolved (fs_pkg w)),
      re_savePackageJson = (\<lambda>c w. (Resolved (), w\<lparr>fs_pkg := c\<rparr>)),
      re_existsSync = (\<lambda>w p. List.member (fs_paths w) p),
      re_validRange = (\<lambda>s. case s of [] \<Rightarrow> False | c # _ \<Rightarrow> List.member ''^~0123456789'' c),
      re_platformAdd = (\<lambda>src w. (if List.member failing src then Rejected (Thrown ''E'') else Resolved (), w)),
      re_pluginAdd = (\<lambda>src v w. (if List.member failing src then Rejected (Thrown ''E'') else Resolved (), w))\<rparr>"

definition cfg_ex :: config_xml where
  "cfg_ex = \<lparr>cfg_packageName = Some ''io.Cordova.App'', cfg_version = Some ''1.0.0'', cfg_name = None,
       cfg_engines = [\<lparr>eng_name = ''android'', eng_spec = None\<rparr>, \<lparr>eng_name = ''ios'', eng_spec = Some ''^7.0.0''\<rparr>],
       cfg_plugins = [\<lparr>plg_name = ''cordova-plugin-camera'', plg_spec = Some ''^6.0.0'', plg_variables = [(''KEY'', ''v'')]\<rparr>]\<rparr>"

definition pkg_ex :: pkg_content where
  "pkg_ex = \<lparr>pkg_name = Some ''my-app'', pkg_version = None, pkg_displayName = Some ''My App'',
       pkg_platforms = [''android''], pkg_plugins = [(''cordova-plugin-device'', [])],
       pkg_dependencies = [], pkg_devDependencies = [(''cordova-plugin-device'', ''2.0.0'')]\<rparr>"

definition proc_ex :: "string list \<Rightarrow> fsx proc" where
  "proc_ex paths = \<lparr>world = \<lparr>fs_cfg = cfg_ex, fs_pkg = pkg_ex, fs_paths = paths\<rparr>, calls = [], events = [],
       exitCode = 0, itemName = [], shouldRunPrepare = False, failures = []\<rparr>"



text \<open>Whether a settled promise is fulfilled.\<close>

fun is_resolved :: "'a settled \<Rightarrow> bool" where
  "is_resolved (Resolved _) = True"
| "is_resolved (Rejected _) = False"

section \<open>Auxiliary definitions of the proofs\<close>

text \<open>The effect of one engine on \<open>devDependencies\<close>, and of one listed plugin on the manifest.\<close>

definition dev_step :: "(string \<times> string) list \<Rightarrow> (string \<times> string) list \<Rightarrow> engine \<Rightarrow> (string \<times> string) list" where
  "dev_step S al e =
     (if truthy (eng_spec e) \<and> \<not> js_in (platformModule (eng_name e)) S
      then AList.update (platformModule (eng_name e)) (or_default (eng_spec e) []) al else al)"


text \<open>
  A file system on which a completed \<open>save\<close> is what the next load reads, and which
  leaves \<open>config.xml\<close> as it was.
\<close>

definition saved_is_loaded :: "'w restore_env \<Rightarrow> bool" where
  "saved_is_loaded env =
     (\<forall>c w. fst (re_savePackageJson env c w) = Resolved () \<longrightarrow>
        re_loadPackageJson env (snd (re_savePackageJson env c w)) = Resolved c
        \<and> re_readConfig env (snd (re_savePackageJson env c w)) = re_readConfig env w)"

text \<open>The manifest of the example after the plugins of the descriptor were migrated.\<close>

definition pkg_ex_plugins :: pkg_content where
  "pkg_ex_plugins = pkg_ex\<lparr>pkg_devDependencies := [(''cordova-plugin-device'', ''2.0.0''), (''cordova-plugin-camera'', ''^6.0.0'')],
       pkg_plugins := [(''cordova-plugin-device'', []), (''cordova-plugin-camera'', [(''KEY'', ''v'')])]\<rparr>"

text \<open>The install call of an item, and the warning of a failed restore.\<close>

definition platform_call :: "'w restore_env \<Rightarrow> (string \<times> string option) \<Rightarrow> call" where
  "platform_call env item = PlatformAdd (installFrom (re_validRange env) (fst item) (snd item))"

definition plugin_call :: "'w restore_env \<Rightarrow> (string \<times> string option \<times> vars) \<Rightarrow> call" where
  "plugin_call env item = PluginAdd (installFrom (re_validRange env) (fst item) (fst (snd item))) (snd (snd item))"

text \<open>The warnings that the two \<open>errCallback\<close> functions emit.\<close>

definition platform_warning :: "string \<Rightarrow> err \<Rightarrow> string \<times> string" where
  "platform_warning name e =
     (''warn'', ''Failed to restore platform '' @ dq @ name @ dq
        @ ''. You might need to try adding it again. Error: '' @ error_text e)"

definition plugin_warning :: "string \<Rightarrow> err \<Rightarrow> string \<times> string" where
  "plugin_warning name e =
     (''warn'', ''Failed to restore plugin '' @ dq @ name @ dq
        @ ''. You might need to try adding it again. Error: '' @ error_text e)"

text \<open>Presence of an item under the platforms root and under the plugins root.\<close>

definition platform_on_disk :: "'w restore_env \<Rightarrow> 'w \<Rightarrow> string \<Rightarrow> bool" where
  "platform_on_disk env w name = re_existsSync env w (path_join [path_join [re_projectRoot env, ''platforms''], name])"

definition plugin_on_disk :: "'w restore_env \<Rightarrow> 'w \<Rightarrow> string \<Rightarrow> bool" where
  "plugin_on_disk env w name = re_existsSync env w (path_join [path_join [re_projectRoot env, ''plugins''], name])"

definition grows :: "'w proc \<Rightarrow> 'w proc \<Rightarrow> bool" where
  "grows s s' = (prefix (calls s) (calls s') \<and> prefix (events s) (events s')
      \<and> (exitCode s = 1 \<longrightarrow> exitCode s' = 1))"

text \<open>The environment of the fold examples: \<open>platform add android\<close> and the install of
  \<open>cordova-plugin-device\<close> reject.\<close>

definition env_fail :: "fsx restore_env" where
  "env_fail = re_env_ex [''android'', ''cordova-plugin-device@2.0.0'']"

text \<open>The paths of a project in which every item of the example is on disk.\<close>

definition disk_all :: "string list" where
  "disk_all = [''/app/platforms/android'', ''/app/platforms/ios'',
               ''/app/plugins/cordova-plugin-device'', ''/app/plugins/cordova-plugin-camera'']"

text \<open>
  A run of the steps of the items, each started in the state that the one before it left,
  in which every step is fulfilled.
\<close>

fun clean_run :: "('a \<Rightarrow> ('w, unit) act) \<Rightarrow> 'a list \<Rightarrow> 'w proc \<Rightarrow> bool" where
  "clean_run f [] s = True"
| "clean_run f (x # xs) s =
     (case f x s of (Resolved _, s') \<Rightarrow> clean_run f xs s' | (Rejected _, _) \<Rightarrow> False)"

text \<open>
  The state after the step of every item has run, each in the state that the one before
  it left.
\<close>

definition turns :: "('a \<Rightarrow> ('w, unit) act) \<Rightarrow> 'a list \<Rightarrow> 'w proc \<Rightarrow> 'w proc" where
  "turns cb items s = foldl (\<lambda>u x. snd (cb x u)) s items"

text \<open>The environment of the removal examples in which merging the variables of a
  plugin throws.\<close>

definition rm_env_merge_fails :: "unit rm_env" where
  "rm_env_merge_fails =
     (rm_env_ok [''cordova-plugin-foo''] [''android''])\<lparr>rm_mergeVariables := (\<lambda>_ _. Rejected (Thrown ''E''))\<rparr>"

text \<open>Projects with the plugins \<open>cordova-plugin-foo\<close> and \<open>cordova-plugin-bar\<close> on the
  platform \<open>android\<close>, in which one step of the removal of \<open>cordova-plugin-foo\<close> fails: the
  package-level uninstall, the read of the manifest in the persistence step, and the
  per-platform uninstall.\<close>

definition rm_env_uninstall_fails :: "unit rm_env" where
  "rm_env_uninstall_fails =
     (rm_env_ok [''cordova-plugin-foo'', ''cordova-plugin-bar''] [''android''])
       \<lparr>rm_uninstallPlugin :=
          (\<lambda>t w. (if t = ''cordova-plugin-foo'' then Rejected (Thrown ''E'') else Resolved (), w))\<rparr>"

definition rm_env_persist_fails :: "unit rm_env" where
  "rm_env_persist_fails =
     (rm_env_ok [''cordova-plugin-foo'', ''cordova-plugin-bar''] [''android''])
       \<lparr>rm_pkgHasPlugin :=
          (\<lambda>t _. if t = ''cordova-plugin-foo'' then Rejected (Thrown ''E'') else Resolved False)\<rparr>"

definition rm_env_platform_fails :: "unit rm_env" where
  "rm_env_platform_fails =
     (rm_env_ok [''cordova-plugin-foo'', ''cordova-plugin-bar''] [''android''])
       \<lparr>rm_uninstallPlatform :=
          (\<lambda>p t v w. (if t = ''cordova-plugin-foo'' then Rejected (Thrown ''E'') else Resolved True, w))\<rparr>"

text \<open>The options of the removal examples.\<close>

definition opts_foo_bar :: rm_opts where
  "opts_foo_bar = \<lparr>opt_plugins = [''foo'', ''bar''], opt_save = True\<rparr>"

text \<open>The process after \<open>cordova-plugin-bar\<close> was removed from a fresh one, and after the
  removal of \<open>cordova-plugin-foo\<close> that follows got as far as the package-level uninstall.\<close>

definition st_bar_removed :: "unit proc" where
  "st_bar_removed =
     proc0\<lparr>calls := [UninstallPlatform ''android'' ''cordova-plugin-bar'', UninstallPlugin ''cordova-plugin-bar'',
                      RemoveFetchMetadata ''cordova-plugin-bar''],
            events := [(''verbose'', ''Calling plugman.uninstall on plugin '' @ dq @ ''cordova-plugin-bar'' @ dq
                          @ '' for platform '' @ dq @ ''android'' @ dq),
                       (''verbose'', ''Removing plugin cordova-plugin-bar from fetch.json'')]\<rparr>"

definition st_foo_failed :: "unit proc" where
  "st_foo_failed =
     st_bar_removed\<lparr>calls := calls st_bar_removed
                        @ [UninstallPlatform ''android'' ''cordova-plugin-foo'', UninstallPlugin ''cordova-plugin-foo''],
            events := events st_bar_removed
                        @ [(''verbose'', ''Calling plugman.uninstall on plugin '' @ dq @ ''cordova-plugin-foo'' @ dq
                              @ '' for platform '' @ dq @ ''android'' @ dq)]\<rparr>"




text \<open>From state \<open>s\<close> the action makes only calls that satisfy \<open>P\<close>, after those already made.\<close>

definition adds :: "(call \<Rightarrow> bool) \<Rightarrow> 'w proc \<Rightarrow> ('w, 'a) act \<Rightarrow> bool" where
  "adds P s m = (\<exists>r. calls (snd (m s)) = calls s @ r \<and> list_all P r)"


section \<open>Properties\<close>

subsection \<open>Facts about the helpers\<close>

lemma arr_indexOf_ge_minus1: "- 1 \<le> arr_indexOf xs x"
  by (induction xs) (auto simp: Let_def)

lemma arr_indexOf_member: "0 \<le> arr_indexOf xs x \<longleftrightarrow> x \<in> set xs"
  by (induction xs) (auto simp: Let_def)

lemma str_indexOf_sublist: "0 \<le> str_indexOf s p \<longleftrightarrow> sublist p s"
proof (induction s)
  case Nil
  show ?case by simp
next
  case (Cons c cs)
  show ?case
  proof (cases "prefix p (c # cs)")
    case True
    then show ?thesis by (auto simp: sublist_Cons_right)
  next
    case False
    with Cons show ?thesis by (auto simp: Let_def sublist_Cons_right)
  qed
qed

lemma validatePluginId_closed:
  "validatePluginId t inst =
     (if t \<in> set inst then Some t
      else if sublist ''cordova-plugin-'' t then None
      else if ''cordova-plugin-'' @ t \<in> set inst then Some (''cordova-plugin-'' @ t)
      else None)"
proof -
  define u where "u = ''cordova-plugin-'' @ t"
  have pre: "sublist ''cordova-plugin-'' u"
    unfolding u_def by (rule sublist_append_rightI)
  have neg: "str_indexOf v ''cordova-plugin-'' < 0 \<longleftrightarrow> \<not> sublist ''cordova-plugin-'' v" for v
    using str_indexOf_sublist [of v "''cordova-plugin-''"] by auto
  have inner: "validatePluginId u inst = (if u \<in> set inst then Some u else None)"
    using pre by (subst validatePluginId.simps) (simp add: arr_indexOf_member neg)
  have "validatePluginId t inst =
     (if t \<in> set inst then Some t
      else if sublist ''cordova-plugin-'' t then None
      else if u \<in> set inst then Some u else None)"
    apply (subst validatePluginId.simps)
    apply (fold u_def)
    apply (simp add: arr_indexOf_member neg inner)
    done
  then show ?thesis
    by (simp only: u_def)
qed

subsection \<open>Plugin removal: validation\<close>

lemma removePlugin_unmatched:
  "validatePluginId t plugins = None \<Longrightarrow>
   removePlugin env pol opts plugins platformList t s =
     (Rejected (CordovaError (''Plugin '' @ dq @ t @ dq @ '' is not present in the project. See ''
        @ bq @ rm_binname env @ '' plugin list'' @ bq @ ''.'')), s)"
  by (simp add: removePlugin_def rp_validate_def andThen_def reject_def)

text \<open>
  Claim C7, as amended. \<open>validatePluginId\<close> returns the target itself when it is one of
  the installed ids. Otherwise, only when the target does not contain \<open>cordova-plugin-\<close>
  anywhere, it tries the target with \<open>cordova-plugin-\<close> prepended, once, and returns the
  prefixed id when that is installed. In every other case there is no match; no id other
  than these two is ever looked up. Target \<open>foo\<close> with only \<open>cordova-plugin-foo\<close>
  installed resolves to \<open>cordova-plugin-foo\<close>. A target without a match makes
  \<open>removePlugin\<close> reject with a \<open>CordovaError\<close> naming it, the process state untouched.
\<close>

theorem C7_validatePluginId:
  "validatePluginId t inst =
     (if t \<in> set inst then Some t
      else if \<not> sublist ''cordova-plugin-'' t \<and> ''cordova-plugin-'' @ t \<in> set inst
        then Some (''cordova-plugin-'' @ t)
      else None)
   \<and> validatePluginId ''foo'' [''cordova-plugin-foo''] = Some ''cordova-plugin-foo''
   \<and> (validatePluginId t inst = None \<longrightarrow>
        removePlugin env pol opts inst platformList t s =
          (Rejected (CordovaError (''Plugin '' @ dq @ t @ dq @ '' is not present in the project. See ''
             @ bq @ rm_binname env @ '' plugin list'' @ bq @ ''.'')), s))"
proof (intro conjI impI)
  show "validatePluginId t inst =
     (if t \<in> set inst then Some t
      else if \<not> sublist ''cordova-plugin-'' t \<and> ''cordova-plugin-'' @ t \<in> set inst
        then Some (''cordova-plugin-'' @ t)
      else None)"
    by (subst validatePluginId_closed) simp
  show "validatePluginId ''foo'' [''cordova-plugin-foo''] = Some ''cordova-plugin-foo''"
    by code_simp
  show "removePlugin env pol opts inst platformList t s =
          (Rejected (CordovaError (''Plugin '' @ dq @ t @ dq @ '' is not present in the project. See ''
             @ bq @ rm_binname env @ '' plugin list'' @ bq @ ''.'')), s)"
    if "validatePluginId t inst = None"
    using that by (rule removePlugin_unmatched)
qed

theorem C7_validatePluginId_witness:
  "validatePluginId ''bar'' [''cordova-plugin-foo''] = None
   \<and> removePlugin (rm_env_ok [''cordova-plugin-foo''] [''android'']) StopAtRejection
         \<lparr>opt_plugins = [''bar''], opt_save = True\<rparr> [''cordova-plugin-foo''] [''android''] ''bar'' proc0 =
       (Rejected (CordovaError (''Plugin '' @ dq @ ''bar'' @ dq @ '' is not present in the project. See ''
          @ bq @ ''cordova'' @ '' plugin list'' @ bq @ ''.'')), proc0)"
proof -
  have none: "validatePluginId ''bar'' [''cordova-plugin-foo''] = None"
    by code_simp
  from none C7_validatePluginId [of "''bar''" "[''cordova-plugin-foo'']"
      "rm_env_ok [''cordova-plugin-foo''] [''android'']" StopAtRejection
      "\<lparr>opt_plugins = [''bar''], opt_save = True\<rparr>" "[''android'']" proc0]
  show ?thesis
    by (simp add: rm_env_ok_def)
qed

text \<open>
  The claim as stated fails: the target \<open>a-cordova-plugin-b\<close> is not installed, the id with
  the prefix prepended once is, and yet no match is returned, because the target contains
  \<open>cordova-plugin-\<close> and so the retry is not made.
\<close>

theorem C7_counterexample:
  "''a-cordova-plugin-b'' \<notin> set [''cordova-plugin-a-cordova-plugin-b'']
   \<and> ''cordova-plugin-'' @ ''a-cordova-plugin-b'' \<in> set [''cordova-plugin-a-cordova-plugin-b'']
   \<and> validatePluginId ''a-cordova-plugin-b'' [''cordova-plugin-a-cordova-plugin-b''] = None"
proof (intro conjI)
  show "validatePluginId ''a-cordova-plugin-b'' [''cordova-plugin-a-cordova-plugin-b''] = None"
    by code_simp
qed simp_all


subsection \<open>Restore: the reconciliation of the two stores\<close>

lemma migrate_engine_platforms:
  "pkg_platforms (migrate_engine P S pkg e) =
     pkg_platforms pkg @ (if eng_name e \<in> set P then [] else [eng_name e])"
  by (simp add: migrate_engine_def engine_migrates_def Let_def)

lemma migrate_engine_frame:
  "pkg_name (migrate_engine P S pkg e) = pkg_name pkg"
  "pkg_version (migrate_engine P S pkg e) = pkg_version pkg"
  "pkg_displayName (migrate_engine P S pkg e) = pkg_displayName pkg"
  "pkg_plugins (migrate_engine P S pkg e) = pkg_plugins pkg"
  "pkg_dependencies (migrate_engine P S pkg e) = pkg_dependencies pkg"
  by (simp_all add: migrate_engine_def Let_def)


lemma foldl_migrate_platforms:
  "pkg_platforms (foldl (migrate_engine P S) pkg es) =
     pkg_platforms pkg @ map eng_name (filter (\<lambda>e. eng_name e \<notin> set P) es)"
  by (induction es arbitrary: pkg) (simp_all add: migrate_engine_platforms)

lemma foldl_migrate_frame:
  "pkg_name (foldl (migrate_engine P S) pkg es) = pkg_name pkg"
  "pkg_version (foldl (migrate_engine P S) pkg es) = pkg_version pkg"
  "pkg_displayName (foldl (migrate_engine P S) pkg es) = pkg_displayName pkg"
  "pkg_plugins (foldl (migrate_engine P S) pkg es) = pkg_plugins pkg"
  "pkg_dependencies (foldl (migrate_engine P S) pkg es) = pkg_dependencies pkg"
  by (induction es arbitrary: pkg) (simp_all add: migrate_engine_frame)


lemma truthy_or_default: "truthy v \<Longrightarrow> Some (or_default v d) = v"
  by (auto simp: truthy_def or_default_def split: option.splits)

lemma js_in_platformModule: "js_in (platformModule n) S = has_key (platformModule n) S"
proof -
  have "prefix ''cordova-'' (platformModule n)"
    by (simp add: platformModule_def)
  then have "\<not> List.member object_prototype_keys (platformModule n)"
    by (auto simp: object_prototype_keys_def)
  then show ?thesis by (simp add: js_in_def)
qed

lemma map_of_foldl_dev_step:
  "map_of (foldl (dev_step S) al es) m =
     (if m \<in> set (map fst S) \<or> [e \<leftarrow> es. truthy (eng_spec e) \<and> platformModule (eng_name e) = m] = []
      then map_of al m
      else eng_spec (last [e \<leftarrow> es. truthy (eng_spec e) \<and> platformModule (eng_name e) = m]))"
proof (induction es rule: rev_induct)
  case Nil
  show ?case by simp
next
  case (snoc e es)
  show ?case
  proof (cases "truthy (eng_spec e) \<and> \<not> has_key (platformModule (eng_name e)) S")
    case True
    then show ?thesis
      using snoc by (auto simp: dev_step_def update_conv' truthy_or_default js_in_platformModule has_key_def)
  next
    case False
    then show ?thesis
      using snoc by (auto simp: dev_step_def js_in_platformModule has_key_def)
  qed
qed

lemma map_of_foldl_dev_step_keep:
  "m \<in> set (map fst al) \<Longrightarrow> set (map fst al) \<subseteq> set (map fst S) \<Longrightarrow>
   map_of (foldl (dev_step S) al es) m = map_of al m"
  by (auto simp: map_of_foldl_dev_step)




lemma migrate_platforms_platforms:
  "pkg_platforms (migrate_platforms cfg pkg) =
     pkg_platforms pkg @ map eng_name (filter (\<lambda>e. eng_name e \<notin> set (pkg_platforms pkg)) (cfg_engines cfg))"
  by (simp add: migrate_platforms_def Let_def foldl_migrate_platforms)

lemma migrate_platforms_frame:
  "pkg_name (migrate_platforms cfg pkg) = pkg_name pkg"
  "pkg_version (migrate_platforms cfg pkg) = pkg_version pkg"
  "pkg_displayName (migrate_platforms cfg pkg) = pkg_displayName pkg"
  "pkg_plugins (migrate_platforms cfg pkg) = pkg_plugins pkg"
  "pkg_dependencies (migrate_platforms cfg pkg) = pkg_dependencies pkg"
  by (simp_all add: migrate_platforms_def Let_def foldl_migrate_frame)


lemma front_matter_frame:
  "pkg_platforms (front_matter cfg pkg) = pkg_platforms pkg"
  "pkg_plugins (front_matter cfg pkg) = pkg_plugins pkg"
  "pkg_dependencies (front_matter cfg pkg) = pkg_dependencies pkg"
  "pkg_devDependencies (front_matter cfg pkg) = pkg_devDependencies pkg"
  by (simp_all add: front_matter_def Let_def)

lemma front_matter_fields:
  "pkg_name (front_matter cfg pkg) =
     (if truthy (cfg_packageName cfg) then Some (toLowerCase (or_default (cfg_packageName cfg) [])) else pkg_name pkg)"
  "pkg_version (front_matter cfg pkg) = (if truthy (cfg_version cfg) then cfg_version cfg else pkg_version pkg)"
  "pkg_displayName (front_matter cfg pkg) = (if truthy (cfg_name cfg) then cfg_name cfg else pkg_displayName pkg)"
  by (simp_all add: front_matter_def Let_def)

lemma reconcile_platforms_run:
  assumes "re_readConfig env (world s) = Resolved cfg"
    and "re_loadPackageJson env (world s) = Resolved pkg0"
  shows "reconcile_platforms env s =
     (let pkg2 = migrate_platforms cfg (front_matter cfg pkg0);
          s1 = s\<lparr>events := events s @ [(''verbose'', ''Checking for saved platforms that haven'' @ sq @ ''t been added to the project'')]
                  @ platform_info_msgs cfg (front_matter cfg pkg0)\<rparr>
      in if length (pkg_platforms pkg2) \<noteq> length (pkg_platforms pkg0)
         then (case fst (re_savePackageJson env pkg2 (world s)) of Resolved _ \<Rightarrow> Resolved pkg2 | Rejected e \<Rightarrow> Rejected e,
               s1\<lparr>world := snd (re_savePackageJson env pkg2 (world s)), calls := calls s @ [SavePackageJson pkg2]\<rparr>)
         else (Resolved pkg2, s1))"
  using assms
  by (simp add: reconcile_platforms_def andThen_def emit_def query_def invoke_def resolve_def Let_def
        front_matter_frame split: prod.splits settled.splits)




lemma migrate_plugin_old:
  "plID \<in> set P \<Longrightarrow> migrate_plugin cfg P S pkg plID = Inr pkg"
  by (simp add: migrate_plugin_def plugin_migrates_def)





lemma migrate_plugins_loop_settled:
  "set ids \<subseteq> set P \<Longrightarrow> migrate_plugins_loop cfg P S pkg ids = Inr pkg"
  by (induction ids) (simp_all add: migrate_plugin_old)

lemma migrate_plugins_settled:
  "set (getPluginIdList cfg) \<subseteq> fst ` set (pkg_plugins pkg) \<Longrightarrow> migrate_plugins cfg pkg = Inr pkg"
  unfolding migrate_plugins_def
  by (rule migrate_plugins_loop_settled) (simp add: obj_keys_def)




lemma migrate_plugins_loop_keys:
  assumes "migrate_plugins_loop cfg P S pkg ids = Inr pkg'"
    and "set P \<subseteq> fst ` set (pkg_plugins pkg)"
  shows "length (pkg_plugins pkg) \<le> length (pkg_plugins pkg')
       \<and> fst ` set (pkg_plugins pkg') = fst ` set (pkg_plugins pkg) \<union> {i \<in> set ids. i \<notin> set P}
       \<and> (length (pkg_plugins pkg') = length (pkg_plugins pkg)
            \<longleftrightarrow> {i \<in> set ids. i \<notin> set P} \<subseteq> fst ` set (pkg_plugins pkg))"
  using assms
proof (induction ids arbitrary: pkg)
  case Nil
  then show ?case by simp
next
  case (Cons plID rest)
  from Cons.prems(1) obtain pkg1 where
    one: "migrate_plugin cfg P S pkg plID = Inr pkg1" and
    more: "migrate_plugins_loop cfg P S pkg1 rest = Inr pkg'"
    by (auto split: sum.splits)
  show ?case
  proof (cases "plID \<in> set P")
    case True
    with one have "pkg1 = pkg" by (simp add: migrate_plugin_old)
    with Cons.IH [OF more] Cons.prems(2) True show ?thesis by auto
  next
    case False
    with one have "\<exists>vs. pkg_plugins pkg1 = AList.update plID vs (pkg_plugins pkg)"
      by (auto simp: migrate_plugin_def plugin_migrates_def Let_def split: option.splits if_splits)
    then obtain vs where pl: "pkg_plugins pkg1 = AList.update plID vs (pkg_plugins pkg)" ..
    have keys1: "fst ` set (pkg_plugins pkg1) = insert plID (fst ` set (pkg_plugins pkg))"
      by (simp add: pl dom_update)
    have len1: "length (pkg_plugins pkg1) =
        (if plID \<in> fst ` set (pkg_plugins pkg) then length (pkg_plugins pkg) else Suc (length (pkg_plugins pkg)))"
      using update_keys [of plID vs "pkg_plugins pkg"]
      by (simp add: pl) (metis length_map length_append_singleton)
    from Cons.prems(2) keys1 have sub: "set P \<subseteq> fst ` set (pkg_plugins pkg1)" by auto
    note ih = Cons.IH [OF more sub]
    show ?thesis
    proof (cases "plID \<in> fst ` set (pkg_plugins pkg)")
      case True
      with keys1 have "fst ` set (pkg_plugins pkg1) = fst ` set (pkg_plugins pkg)" by auto
      with ih len1 True False show ?thesis by auto
    next
      case notin: False
      with ih len1 keys1 False show ?thesis by auto
    qed
  qed
qed


subsection \<open>Restore: the front matter\<close>

text \<open>
  Claim C5, as amended. In platform restore each front-matter field that is present and
  non-blank in \<open>config.xml\<close> (package name, version, display name) is written into the
  manifest's working copy whatever the manifest held, the package name in lower case;
  a field absent or blank in \<open>config.xml\<close> leaves the manifest's value as it was.
\<close>

theorem C5_front_matter:
  "re_readConfig env (world s) = Resolved cfg \<and> re_loadPackageJson env (world s) = Resolved pkg0
     \<and> reconcile_platforms env s = (Resolved pkg2, s') \<longrightarrow>
   pkg_name pkg2 =
     (if truthy (cfg_packageName cfg) then Some (toLowerCase (or_default (cfg_packageName cfg) []))
      else pkg_name pkg0)
   \<and> pkg_version pkg2 = (if truthy (cfg_version cfg) then cfg_version cfg else pkg_version pkg0)
   \<and> pkg_displayName pkg2 = (if truthy (cfg_name cfg) then cfg_name cfg else pkg_displayName pkg0)"
proof (intro impI, elim conjE)
  assume cfg: "re_readConfig env (world s) = Resolved cfg"
    and pkg: "re_loadPackageJson env (world s) = Resolved pkg0"
    and run: "reconcile_platforms env s = (Resolved pkg2, s')"
  from run have "pkg2 = migrate_platforms cfg (front_matter cfg pkg0)"
    unfolding reconcile_platforms_run [OF cfg pkg]
    by (auto simp: Let_def split: if_splits settled.splits)
  then show "pkg_name pkg2 =
     (if truthy (cfg_packageName cfg) then Some (toLowerCase (or_default (cfg_packageName cfg) []))
      else pkg_name pkg0)
   \<and> pkg_version pkg2 = (if truthy (cfg_version cfg) then cfg_version cfg else pkg_version pkg0)
   \<and> pkg_displayName pkg2 = (if truthy (cfg_name cfg) then cfg_name cfg else pkg_displayName pkg0)"
    by (simp add: migrate_platforms_frame front_matter_fields)
qed

lemma reconcile_platforms_ex:
  "reconcile_platforms (re_env_ex []) (proc_ex []) =
     (Resolved (migrate_platforms cfg_ex (front_matter cfg_ex pkg_ex)),
      (proc_ex [])\<lparr>events := [(''verbose'', ''Checking for saved platforms that haven'' @ sq @ ''t been added to the project'')]
                       @ platform_info_msgs cfg_ex (front_matter cfg_ex pkg_ex),
                  world := \<lparr>fs_cfg = cfg_ex, fs_pkg = migrate_platforms cfg_ex (front_matter cfg_ex pkg_ex), fs_paths = []\<rparr>,
                  calls := [SavePackageJson (migrate_platforms cfg_ex (front_matter cfg_ex pkg_ex))]\<rparr>)"
proof -
  have len: "length (pkg_platforms (migrate_platforms cfg_ex (front_matter cfg_ex pkg_ex))) \<noteq> length (pkg_platforms pkg_ex)"
    by (simp add: migrate_platforms_platforms front_matter_frame cfg_ex_def pkg_ex_def)
  have a: "re_readConfig (re_env_ex []) (world (proc_ex [])) = Resolved cfg_ex"
    and b: "re_loadPackageJson (re_env_ex []) (world (proc_ex [])) = Resolved pkg_ex"
    by (simp_all add: re_env_ex_def proc_ex_def)
  show ?thesis
    unfolding reconcile_platforms_run [OF a b] using len
    by (simp add: Let_def re_env_ex_def proc_ex_def)
qed

lemma toLowerCase_ex: "toLowerCase ''io.Cordova.App'' = ''io.cordova.app''"
  by code_simp

theorem C5_front_matter_witness:
  "pkg_name (migrate_platforms cfg_ex (front_matter cfg_ex pkg_ex)) = Some ''io.cordova.app''
   \<and> pkg_version (migrate_platforms cfg_ex (front_matter cfg_ex pkg_ex)) = Some ''1.0.0''
   \<and> pkg_displayName (migrate_platforms cfg_ex (front_matter cfg_ex pkg_ex)) = Some ''My App''"
proof -
  have a: "re_readConfig (re_env_ex []) (world (proc_ex [])) = Resolved cfg_ex"
    and b: "re_loadPackageJson (re_env_ex []) (world (proc_ex [])) = Resolved pkg_ex"
    by (simp_all add: re_env_ex_def proc_ex_def)
  from C5_front_matter [of "re_env_ex []" "proc_ex []" cfg_ex pkg_ex] a b reconcile_platforms_ex
  have "pkg_name (migrate_platforms cfg_ex (front_matter cfg_ex pkg_ex)) =
     (if truthy (cfg_packageName cfg_ex) then Some (toLowerCase (or_default (cfg_packageName cfg_ex) []))
      else pkg_name pkg_ex)
   \<and> pkg_version (migrate_platforms cfg_ex (front_matter cfg_ex pkg_ex)) = (if truthy (cfg_version cfg_ex) then cfg_version cfg_ex else pkg_version pkg_ex)
   \<and> pkg_displayName (migrate_platforms cfg_ex (front_matter cfg_ex pkg_ex)) = (if truthy (cfg_name cfg_ex) then cfg_name cfg_ex else pkg_displayName pkg_ex)"
    by blast
  then show ?thesis
    by (simp add: cfg_ex_def pkg_ex_def truthy_def or_default_def toLowerCase_ex)
qed

text \<open>
  The claim as stated fails: the manifest's name \<open>my-app\<close> is not blank, and the
  reconciliation replaces it by the descriptor's package name.
\<close>

theorem C5_counterexample:
  "pkg_name pkg_ex = Some ''my-app''
   \<and> fst (reconcile_platforms (re_env_ex []) (proc_ex [])) = Resolved (migrate_platforms cfg_ex (front_matter cfg_ex pkg_ex))
   \<and> pkg_name (migrate_platforms cfg_ex (front_matter cfg_ex pkg_ex)) = Some ''io.cordova.app''"
  by (simp add: reconcile_platforms_ex migrate_platforms_frame front_matter_fields)
     (simp add: cfg_ex_def pkg_ex_def truthy_def or_default_def toLowerCase_ex)


subsection \<open>Restore: the install source\<close>

lemma installFrom_cases:
  "installFrom valid name spec =
     (case spec of None \<Rightarrow> name
      | Some sp \<Rightarrow> if sp = [] then name else if valid sp then name @ ''@'' @ sp else sp)"
  by (simp add: installFrom_def or_default_def truthy_def split: option.splits)

text \<open>
  Claim C6. For an item that \<open>restoreCallback\<close> installs: a specifier that is present
  (not \<open>undefined\<close>, not the empty string) and a valid range gives the install source
  \<open>name@specifier\<close>; one that is present and not a valid range is the install source
  itself; with the specifier absent (\<open>undefined\<close> or empty) the source is the item's name.
  That source is what the install primitive receives, and the callback settles as the
  primitive does: nothing else can make it reject.
\<close>

theorem C6_install_source:
  "(sp \<noteq> [] \<and> valid sp \<longrightarrow> installFrom valid name (Some sp) = name @ ''@'' @ sp)
   \<and> (sp \<noteq> [] \<and> \<not> valid sp \<longrightarrow> installFrom valid name (Some sp) = sp)
   \<and> installFrom valid name None = name
   \<and> installFrom valid name (Some []) = name
   \<and> (\<not> re_existsSync env (world s) (path_join [path_join [re_projectRoot env, ''platforms''], name])
        \<and> \<not> platform_excluded platforms name \<longrightarrow>
      restoreCallback_platform env platforms (name, spec) s =
        (fst (re_platformAdd env (installFrom (re_validRange env) name spec) (world s)),
         s\<lparr>itemName := name,
           events := events s @ [(''log'', ''Discovered platform '' @ dq @ name @ dq @ ''. Adding it to the project'')],
           world := snd (re_platformAdd env (installFrom (re_validRange env) name spec) (world s)),
           calls := calls s @ [PlatformAdd (installFrom (re_validRange env) name spec)]\<rparr>))
   \<and> (\<not> re_existsSync env (world s) (path_join [path_join [re_projectRoot env, ''plugins''], name]) \<longrightarrow>
      restoreCallback_plugin env (name, spec, variables) s =
        (fst (re_pluginAdd env (installFrom (re_validRange env) name spec) variables (world s)),
         s\<lparr>itemName := name,
           events := events s @ [(''log'', ''Discovered plugin '' @ dq @ name @ dq @ ''. Adding it to the project'')],
           world := snd (re_pluginAdd env (installFrom (re_validRange env) name spec) variables (world s)),
           calls := calls s @ [PluginAdd (installFrom (re_validRange env) name spec) variables]\<rparr>))"
  by (simp add: installFrom_cases restoreCallback_platform_def restoreCallback_plugin_def
        andThen_def emit_def invoke_def Let_def split: prod.splits)

theorem C6_install_source_witness:
  "installFrom (re_validRange (re_env_ex [])) ''ios'' (Some ''^7.0.0'') = ''ios@^7.0.0''
   \<and> installFrom (\<lambda>sp. False) ''ios'' (Some ''https://github.com/apache/cordova-ios.git'')
       = ''https://github.com/apache/cordova-ios.git''
   \<and> restoreCallback_platform (re_env_ex []) None (''ios'', Some ''^7.0.0'') (proc_ex []) =
        (Resolved (),
         (proc_ex [])\<lparr>itemName := ''ios'',
           events := [(''log'', ''Discovered platform '' @ dq @ ''ios'' @ dq @ ''. Adding it to the project'')],
           calls := [PlatformAdd ''ios@^7.0.0'']\<rparr>)
   \<and> restoreCallback_plugin (re_env_ex [''cordova-plugin-camera@^6.0.0''])
         (''cordova-plugin-camera'', Some ''^6.0.0'', [(''KEY'', ''v'')]) (proc_ex []) =
        (Rejected (Thrown ''E''),
         (proc_ex [])\<lparr>itemName := ''cordova-plugin-camera'',
           events := [(''log'', ''Discovered plugin '' @ dq @ ''cordova-plugin-camera'' @ dq @ ''. Adding it to the project'')],
           calls := [PluginAdd ''cordova-plugin-camera@^6.0.0'' [(''KEY'', ''v'')]]\<rparr>)"
proof -
  note c1 = C6_install_source [THEN conjunct1]
  note c2 = C6_install_source [THEN conjunct2, THEN conjunct1]
  note c5 = C6_install_source [THEN conjunct2, THEN conjunct2, THEN conjunct2, THEN conjunct2, THEN conjunct1]
  note c6 = C6_install_source [THEN conjunct2, THEN conjunct2, THEN conjunct2, THEN conjunct2, THEN conjunct2]
  have v: "re_validRange (re_env_ex fl) ''^7.0.0''" "re_validRange (re_env_ex fl) ''^6.0.0''" for fl
    by (simp_all add: re_env_ex_def)
  have src: "installFrom (re_validRange (re_env_ex fl)) ''ios'' (Some ''^7.0.0'') = ''ios@^7.0.0''"
    "installFrom (re_validRange (re_env_ex fl)) ''cordova-plugin-camera'' (Some ''^6.0.0'') = ''cordova-plugin-camera@^6.0.0''" for fl
    using c1 [of "''^7.0.0''" "re_validRange (re_env_ex fl)" "''ios''"]
      c1 [of "''^6.0.0''" "re_validRange (re_env_ex fl)" "''cordova-plugin-camera''"] v [of fl]
    by simp_all
  have url: "installFrom (\<lambda>sp. False) ''ios'' (Some ''https://github.com/apache/cordova-ios.git'')
       = ''https://github.com/apache/cordova-ios.git''"
    using c2 [of "''https://github.com/apache/cordova-ios.git''" "\<lambda>sp. False" "''ios''"]
    by simp
  have pl: "restoreCallback_platform (re_env_ex []) None (''ios'', Some ''^7.0.0'') (proc_ex []) =
        (Resolved (),
         (proc_ex [])\<lparr>itemName := ''ios'',
           events := [(''log'', ''Discovered platform '' @ dq @ ''ios'' @ dq @ ''. Adding it to the project'')],
           calls := [PlatformAdd ''ios@^7.0.0'']\<rparr>)"
    using c5 [of "re_env_ex []" "proc_ex []" "''ios''" None "Some ''^7.0.0''"]
    by (simp add: src) (simp add: re_env_ex_def proc_ex_def platform_excluded_def installAllPlatforms_def)
  have pg: "restoreCallback_plugin (re_env_ex [''cordova-plugin-camera@^6.0.0''])
         (''cordova-plugin-camera'', Some ''^6.0.0'', [(''KEY'', ''v'')]) (proc_ex []) =
        (Rejected (Thrown ''E''),
         (proc_ex [])\<lparr>itemName := ''cordova-plugin-camera'',
           events := [(''log'', ''Discovered plugin '' @ dq @ ''cordova-plugin-camera'' @ dq @ ''. Adding it to the project'')],
           calls := [PluginAdd ''cordova-plugin-camera@^6.0.0'' [(''KEY'', ''v'')]]\<rparr>)"
    using c6 [of "re_env_ex [''cordova-plugin-camera@^6.0.0'']" "proc_ex []" "''cordova-plugin-camera''"
        "Some ''^6.0.0''" "[(''KEY'', ''v'')]"]
    by (simp add: src) (simp add: re_env_ex_def proc_ex_def)
  from src(1) url pl pg show ?thesis by blast
qed

subsection \<open>Restore: when the manifest is saved\<close>

lemma reconcile_plugins_run:
  assumes "re_loadPackageJson env (world s) = Resolved pkg0"
    and "re_readConfig env (world s) = Resolved cfg"
    and "migrate_plugins cfg pkg0 = Inr pkg2"
  shows "reconcile_plugins env s =
     (let s1 = s\<lparr>events := events s @ [(''verbose'', ''Checking for saved plugins that haven'' @ sq @ ''t been added to the project'')]
                  @ plugin_info_msgs cfg pkg0\<rparr>
      in if length (pkg_plugins pkg2) \<noteq> length (pkg_plugins pkg0)
         then (case fst (re_savePackageJson env pkg2 (world s)) of Resolved _ \<Rightarrow> Resolved pkg2 | Rejected e \<Rightarrow> Rejected e,
               s1\<lparr>world := snd (re_savePackageJson env pkg2 (world s)), calls := calls s @ [SavePackageJson pkg2]\<rparr>)
         else (Resolved pkg2, s1))"
  using assms
  by (simp add: reconcile_plugins_def andThen_def emit_def query_def invoke_def resolve_def Let_def
        obj_keys_def split: prod.splits settled.splits)

lemma reconcile_plugins_thrown:
  assumes "re_loadPackageJson env (world s) = Resolved pkg0"
    and "re_readConfig env (world s) = Resolved cfg"
    and "migrate_plugins cfg pkg0 = Inl e"
  shows "reconcile_plugins env s =
     (Rejected e,
      s\<lparr>events := events s @ [(''verbose'', ''Checking for saved plugins that haven'' @ sq @ ''t been added to the project'')]
                  @ plugin_info_msgs_thrown cfg pkg0\<rparr>)"
  using assms
  by (simp add: reconcile_plugins_def andThen_def emit_def query_def reject_def)

lemma reconcile_plugins_resolved:
  assumes "re_loadPackageJson env (world s) = Resolved pkg0"
    and "re_readConfig env (world s) = Resolved cfg"
    and "fst (reconcile_plugins env s) = Resolved pkg2"
  shows "migrate_plugins cfg pkg0 = Inr pkg2"
proof (cases "migrate_plugins cfg pkg0")
  case (Inl e)
  with assms show ?thesis by (simp add: reconcile_plugins_thrown [OF assms(1,2) Inl])
next
  case (Inr p2)
  with assms(3) show ?thesis
    unfolding reconcile_plugins_run [OF assms(1,2) Inr]
    by (auto simp: Let_def split: if_splits settled.splits)
qed

lemma platforms_length_new:
  "length (pkg_platforms (migrate_platforms cfg pkg)) \<noteq> length (pkg_platforms pkg)
     \<longleftrightarrow> (\<exists>e \<in> set (cfg_engines cfg). eng_name e \<notin> set (pkg_platforms pkg))"
  by (auto simp: migrate_platforms_platforms filter_empty_conv)

lemma platforms_settled:
  assumes "\<forall>e \<in> set (cfg_engines cfg). eng_name e \<in> set (pkg_platforms pkg)"
  shows "pkg_platforms (migrate_platforms cfg pkg) = pkg_platforms pkg"
  using assms by (simp add: migrate_platforms_platforms filter_empty_conv)

lemma platforms_after_contains:
  "e \<in> set (cfg_engines cfg) \<Longrightarrow> eng_name e \<in> set (pkg_platforms (migrate_platforms cfg pkg))"
  by (auto simp: migrate_platforms_platforms)

lemma reconcile_platforms_calls:
  assumes "re_readConfig env (world s) = Resolved cfg"
    and "re_loadPackageJson env (world s) = Resolved pkg0"
  shows "calls (snd (reconcile_platforms env s)) =
     calls s @ (if length (pkg_platforms (migrate_platforms cfg (front_matter cfg pkg0))) \<noteq> length (pkg_platforms pkg0)
                then [SavePackageJson (migrate_platforms cfg (front_matter cfg pkg0))] else [])"
  unfolding reconcile_platforms_run [OF assms] by (simp add: Let_def)

lemma reconcile_platforms_again:
  assumes cfg: "re_readConfig env (world s) = Resolved cfg"
    and pkg: "re_loadPackageJson env (world s) = Resolved pkg0"
    and law: "saved_is_loaded env"
    and ok: "fst (reconcile_platforms env s) = Resolved pkg2"
  shows "calls (snd (reconcile_platforms env (snd (reconcile_platforms env s)))) = calls (snd (reconcile_platforms env s))"
proof -
  let ?p2 = "migrate_platforms cfg (front_matter cfg pkg0)"
  let ?s' = "snd (reconcile_platforms env s)"
  show ?thesis
  proof (cases "length (pkg_platforms ?p2) \<noteq> length (pkg_platforms pkg0)")
    case True
    with ok have saved: "fst (re_savePackageJson env ?p2 (world s)) = Resolved ()"
      unfolding reconcile_platforms_run [OF cfg pkg]
      by (auto simp: Let_def split: settled.splits)
    from True have w: "world ?s' = snd (re_savePackageJson env ?p2 (world s))"
      unfolding reconcile_platforms_run [OF cfg pkg] by (simp add: Let_def)
    from law saved have l2: "re_loadPackageJson env (world ?s') = Resolved ?p2"
      and c2: "re_readConfig env (world ?s') = Resolved cfg"
      unfolding saved_is_loaded_def w using cfg by auto
    have "\<forall>e \<in> set (cfg_engines cfg). eng_name e \<in> set (pkg_platforms (front_matter cfg ?p2))"
      by (simp add: front_matter_frame platforms_after_contains)
    then have "pkg_platforms (migrate_platforms cfg (front_matter cfg ?p2)) = pkg_platforms ?p2"
      using platforms_settled [of cfg "front_matter cfg ?p2"] by (simp add: front_matter_frame)
    then show ?thesis
      by (simp add: reconcile_platforms_calls [OF c2 l2])
  next
    case False
    then have same: "world ?s' = world s"
      unfolding reconcile_platforms_run [OF cfg pkg] by (simp add: Let_def)
    from cfg pkg have c2: "re_readConfig env (world ?s') = Resolved cfg"
      and l2: "re_loadPackageJson env (world ?s') = Resolved pkg0"
      by (simp_all add: same)
    from False show ?thesis
      by (simp add: reconcile_platforms_calls [OF c2 l2])
  qed
qed

lemma plugins_length_new:
  assumes "migrate_plugins cfg pkg = Inr pkg'"
  shows "length (pkg_plugins pkg') \<noteq> length (pkg_plugins pkg)
     \<longleftrightarrow> (\<exists>i \<in> set (getPluginIdList cfg). \<not> has_key i (pkg_plugins pkg))"
  using migrate_plugins_loop_keys [OF assms [unfolded migrate_plugins_def]]
  by (auto simp: obj_keys_def has_key_def)

lemma plugins_after_contains:
  assumes "migrate_plugins cfg pkg = Inr pkg'"
  shows "set (getPluginIdList cfg) \<subseteq> fst ` set (pkg_plugins pkg')"
  using migrate_plugins_loop_keys [OF assms [unfolded migrate_plugins_def]]
  by (auto simp: obj_keys_def)

lemma reconcile_plugins_calls:
  assumes "re_loadPackageJson env (world s) = Resolved pkg0"
    and "re_readConfig env (world s) = Resolved cfg"
    and "migrate_plugins cfg pkg0 = Inr pkg2"
  shows "calls (snd (reconcile_plugins env s)) =
     calls s @ (if length (pkg_plugins pkg2) \<noteq> length (pkg_plugins pkg0) then [SavePackageJson pkg2] else [])"
  unfolding reconcile_plugins_run [OF assms] by (simp add: Let_def)

lemma reconcile_plugins_again:
  assumes pkg: "re_loadPackageJson env (world s) = Resolved pkg0"
    and cfg: "re_readConfig env (world s) = Resolved cfg"
    and law: "saved_is_loaded env"
    and ok: "fst (reconcile_plugins env s) = Resolved pkg2"
  shows "calls (snd (reconcile_plugins env (snd (reconcile_plugins env s)))) = calls (snd (reconcile_plugins env s))"
proof -
  obtain p2 where p2: "migrate_plugins cfg pkg0 = Inr p2"
    using reconcile_plugins_resolved [OF pkg cfg ok] by blast
  let ?s' = "snd (reconcile_plugins env s)"
  show ?thesis
  proof (cases "length (pkg_plugins p2) \<noteq> length (pkg_plugins pkg0)")
    case True
    with ok have saved: "fst (re_savePackageJson env p2 (world s)) = Resolved ()"
      unfolding reconcile_plugins_run [OF pkg cfg p2]
      by (auto simp: Let_def split: settled.splits)
    from True have w: "world ?s' = snd (re_savePackageJson env p2 (world s))"
      unfolding reconcile_plugins_run [OF pkg cfg p2] by (simp add: Let_def)
    from law saved have l2: "re_loadPackageJson env (world ?s') = Resolved p2"
      and c2: "re_readConfig env (world ?s') = Resolved cfg"
      unfolding saved_is_loaded_def w using cfg by auto
    have p3: "migrate_plugins cfg p2 = Inr p2"
      using plugins_after_contains [OF p2] by (rule migrate_plugins_settled)
    show ?thesis
      by (simp add: reconcile_plugins_calls [OF l2 c2 p3])
  next
    case False
    then have same: "world ?s' = world s"
      unfolding reconcile_plugins_run [OF pkg cfg p2] by (simp add: Let_def)
    from cfg pkg have c2: "re_readConfig env (world ?s') = Resolved cfg"
      and l2: "re_loadPackageJson env (world ?s') = Resolved pkg0"
      by (simp_all add: same)
    from False show ?thesis
      by (simp add: reconcile_plugins_calls [OF l2 c2 p2])
  qed
qed

text \<open>
  Claim C4. With both stores loaded, the reconciliation of a restore calls
  \<open>pkgJson.save()\<close> once when the platform list (the plugin keys) of the working copy
  after the migration is of another length than the one read before it, and not at all
  otherwise. The lengths differ exactly when \<open>config.xml\<close> declares a platform (a plugin)
  that the manifest lacked. On a file system that gives back what was saved, a second
  reconciliation right after a completed one saves nothing.
\<close>

theorem C4_manifest_saved_once:
  "(re_readConfig env (world s) = Resolved cfg \<and> re_loadPackageJson env (world s) = Resolved pkg0 \<longrightarrow>
      calls (snd (reconcile_platforms env s)) =
        calls s @ (if length (pkg_platforms (migrate_platforms cfg (front_matter cfg pkg0))) \<noteq> length (pkg_platforms pkg0)
                   then [SavePackageJson (migrate_platforms cfg (front_matter cfg pkg0))] else [])
      \<and> (length (pkg_platforms (migrate_platforms cfg (front_matter cfg pkg0))) \<noteq> length (pkg_platforms pkg0)
           \<longleftrightarrow> (\<exists>e \<in> set (cfg_engines cfg). eng_name e \<notin> set (pkg_platforms pkg0)))
      \<and> (saved_is_loaded env \<and> is_resolved (fst (reconcile_platforms env s)) \<longrightarrow>
           calls (snd (reconcile_platforms env (snd (reconcile_platforms env s))))
             = calls (snd (reconcile_platforms env s))))
   \<and> (re_readConfig env (world s) = Resolved cfg \<and> re_loadPackageJson env (world s) = Resolved pkg0
        \<and> migrate_plugins cfg pkg0 = Inr pkg2 \<longrightarrow>
      calls (snd (reconcile_plugins env s)) =
        calls s @ (if length (obj_keys (pkg_plugins pkg2)) \<noteq> length (obj_keys (pkg_plugins pkg0))
                   then [SavePackageJson pkg2] else [])
      \<and> (length (obj_keys (pkg_plugins pkg2)) \<noteq> length (obj_keys (pkg_plugins pkg0))
           \<longleftrightarrow> (\<exists>i \<in> set (getPluginIdList cfg). \<not> has_key i (pkg_plugins pkg0)))
      \<and> (saved_is_loaded env \<and> is_resolved (fst (reconcile_plugins env s)) \<longrightarrow>
           calls (snd (reconcile_plugins env (snd (reconcile_plugins env s))))
             = calls (snd (reconcile_plugins env s))))"
proof (intro conjI impI; (elim conjE)?)
  assume cfg: "re_readConfig env (world s) = Resolved cfg"
    and pkg: "re_loadPackageJson env (world s) = Resolved pkg0"
  show "calls (snd (reconcile_platforms env s)) =
        calls s @ (if length (pkg_platforms (migrate_platforms cfg (front_matter cfg pkg0))) \<noteq> length (pkg_platforms pkg0)
                   then [SavePackageJson (migrate_platforms cfg (front_matter cfg pkg0))] else [])"
    by (rule reconcile_platforms_calls [OF cfg pkg])
  show "length (pkg_platforms (migrate_platforms cfg (front_matter cfg pkg0))) \<noteq> length (pkg_platforms pkg0)
           \<longleftrightarrow> (\<exists>e \<in> set (cfg_engines cfg). eng_name e \<notin> set (pkg_platforms pkg0))"
    using platforms_length_new [of cfg "front_matter cfg pkg0"] by (simp add: front_matter_frame)
  show "calls (snd (reconcile_platforms env (snd (reconcile_platforms env s))))
             = calls (snd (reconcile_platforms env s))"
    if "saved_is_loaded env" and "is_resolved (fst (reconcile_platforms env s))"
  proof -
    from that(2) obtain p where "fst (reconcile_platforms env s) = Resolved p"
      by (cases "fst (reconcile_platforms env s)") simp_all
    from reconcile_platforms_again [OF cfg pkg that(1) this] show ?thesis .
  qed
next
  assume cfg: "re_readConfig env (world s) = Resolved cfg"
    and pkg: "re_loadPackageJson env (world s) = Resolved pkg0"
    and mig: "migrate_plugins cfg pkg0 = Inr pkg2"
  show "calls (snd (reconcile_plugins env s)) =
        calls s @ (if length (obj_keys (pkg_plugins pkg2)) \<noteq> length (obj_keys (pkg_plugins pkg0))
                   then [SavePackageJson pkg2] else [])"
    using reconcile_plugins_calls [OF pkg cfg mig] by (simp add: obj_keys_def)
  show "length (obj_keys (pkg_plugins pkg2)) \<noteq> length (obj_keys (pkg_plugins pkg0))
           \<longleftrightarrow> (\<exists>i \<in> set (getPluginIdList cfg). \<not> has_key i (pkg_plugins pkg0))"
    using plugins_length_new [OF mig] by (simp add: obj_keys_def)
  show "calls (snd (reconcile_plugins env (snd (reconcile_plugins env s))))
             = calls (snd (reconcile_plugins env s))"
    if "saved_is_loaded env" and "is_resolved (fst (reconcile_plugins env s))"
  proof -
    from that(2) obtain p where "fst (reconcile_plugins env s) = Resolved p"
      by (cases "fst (reconcile_plugins env s)") simp_all
    from reconcile_plugins_again [OF pkg cfg that(1) this] show ?thesis .
  qed
qed

lemma migrate_plugins_ex: "migrate_plugins cfg_ex pkg_ex = Inr pkg_ex_plugins"
  by (simp add: migrate_plugins_def migrate_plugin_def plugin_migrates_def getPlugin_def getPluginIdList_def
        cfg_ex_def pkg_ex_def pkg_ex_plugins_def obj_keys_def obj_assign_def js_in_def has_key_def
        object_prototype_keys_def truthy_def or_default_def Let_def)

lemma saved_is_loaded_ex: "saved_is_loaded (re_env_ex fl)"
  by (simp add: saved_is_loaded_def re_env_ex_def)

lemma reconcile_plugins_ex:
  "reconcile_plugins (re_env_ex []) (proc_ex []) =
     (Resolved pkg_ex_plugins,
      (proc_ex [])\<lparr>events := [(''verbose'', ''Checking for saved plugins that haven'' @ sq @ ''t been added to the project'')]
                       @ plugin_info_msgs cfg_ex pkg_ex,
                  world := \<lparr>fs_cfg = cfg_ex, fs_pkg = pkg_ex_plugins, fs_paths = []\<rparr>,
                  calls := [SavePackageJson pkg_ex_plugins]\<rparr>)"
proof -
  have len: "length (pkg_plugins pkg_ex_plugins) \<noteq> length (pkg_plugins pkg_ex)"
    by (simp add: pkg_ex_plugins_def pkg_ex_def)
  have a: "re_readConfig (re_env_ex []) (world (proc_ex [])) = Resolved cfg_ex"
    and b: "re_loadPackageJson (re_env_ex []) (world (proc_ex [])) = Resolved pkg_ex"
    by (simp_all add: re_env_ex_def proc_ex_def)
  show ?thesis
    unfolding reconcile_plugins_run [OF b a migrate_plugins_ex] using len
    by (simp add: Let_def re_env_ex_def proc_ex_def)
qed

theorem C4_manifest_saved_once_witness:
  "calls (snd (reconcile_platforms (re_env_ex []) (proc_ex []))) =
     [SavePackageJson (migrate_platforms cfg_ex (front_matter cfg_ex pkg_ex))]
   \<and> pkg_platforms (migrate_platforms cfg_ex (front_matter cfg_ex pkg_ex)) = [''android'', ''ios'']
   \<and> calls (snd (reconcile_platforms (re_env_ex []) (snd (reconcile_platforms (re_env_ex []) (proc_ex []))))) =
     [SavePackageJson (migrate_platforms cfg_ex (front_matter cfg_ex pkg_ex))]
   \<and> calls (snd (reconcile_plugins (re_env_ex []) (proc_ex []))) = [SavePackageJson pkg_ex_plugins]
   \<and> calls (snd (reconcile_plugins (re_env_ex []) (snd (reconcile_plugins (re_env_ex []) (proc_ex []))))) =
     [SavePackageJson pkg_ex_plugins]"
proof -
  have a: "re_readConfig (re_env_ex []) (world (proc_ex [])) = Resolved cfg_ex"
    and b: "re_loadPackageJson (re_env_ex []) (world (proc_ex [])) = Resolved pkg_ex"
    by (simp_all add: re_env_ex_def proc_ex_def)
  have r1: "is_resolved (fst (reconcile_platforms (re_env_ex []) (proc_ex [])))"
    and r2: "is_resolved (fst (reconcile_plugins (re_env_ex []) (proc_ex [])))"
    by (simp_all add: reconcile_platforms_ex reconcile_plugins_ex)
  have pl: "pkg_platforms (migrate_platforms cfg_ex (front_matter cfg_ex pkg_ex)) = [''android'', ''ios'']"
    by (simp add: migrate_platforms_platforms front_matter_frame cfg_ex_def pkg_ex_def)
  have c0: "calls (proc_ex []) = []"
    by (simp add: proc_ex_def)
  from C4_manifest_saved_once [of "re_env_ex []" "proc_ex []" cfg_ex pkg_ex pkg_ex_plugins]
    a b r1 r2 migrate_plugins_ex saved_is_loaded_ex [of "[]"]
  show ?thesis
    by (simp add: pl c0 reconcile_platforms_ex reconcile_plugins_ex)
qed

subsection \<open>Restore: what the reconciliation migrates\<close>










subsection \<open>Restore: the serial fold\<close>

lemma restore_fold_Nil: "restore_fold cb ecb [] s = (Resolved (), s)"
  by (simp add: restore_fold_def)

lemma restore_fold_snoc:
  "restore_fold cb ecb (xs @ [x]) s = then2 (restore_fold cb ecb xs s) (\<lambda>_. cb x) ecb"
  by (simp add: restore_fold_def)

lemma restore_fold_append:
  "restore_fold cb ecb (xs @ ys) s =
     foldl (\<lambda>soFar item. then2 soFar (\<lambda>_. cb item) ecb) (restore_fold cb ecb xs s) ys"
  by (simp add: restore_fold_def)

lemma foldl_from_resolved:
  "foldl (\<lambda>soFar item. then2 soFar (\<lambda>_. cb item) ecb) (Resolved (), s) ys = restore_fold cb ecb ys s"
  by (simp add: restore_fold_def)

lemma restoreCallback_platform_eq:
  "restoreCallback_platform env platforms item s =
     (if platform_on_disk env (world s) (fst item) \<or> platform_excluded platforms (fst item)
      then (Resolved (), s\<lparr>itemName := fst item\<rparr>)
      else (fst (re_platformAdd env (installFrom (re_validRange env) (fst item) (snd item)) (world s)),
            s\<lparr>itemName := fst item,
              events := events s @ [(''log'', ''Discovered platform '' @ dq @ fst item @ dq @ ''. Adding it to the project'')],
              world := snd (re_platformAdd env (installFrom (re_validRange env) (fst item) (snd item)) (world s)),
              calls := calls s @ [platform_call env item]\<rparr>))"
  by (simp add: restoreCallback_platform_def platform_on_disk_def platform_call_def resolve_def
        andThen_def emit_def invoke_def Let_def split: prod.splits)

lemma restoreCallback_plugin_eq:
  "restoreCallback_plugin env item s =
     (if plugin_on_disk env (world s) (fst item)
      then (Resolved (), s\<lparr>itemName := fst item\<rparr>)
      else (fst (re_pluginAdd env (installFrom (re_validRange env) (fst item) (fst (snd item))) (snd (snd item)) (world s)),
            s\<lparr>itemName := fst item,
              events := events s @ [(''log'', ''Discovered plugin '' @ dq @ fst item @ dq @ ''. Adding it to the project'')],
              world := snd (re_pluginAdd env (installFrom (re_validRange env) (fst item) (fst (snd item))) (snd (snd item)) (world s)),
              calls := calls s @ [plugin_call env item]\<rparr>))"
  by (simp add: restoreCallback_plugin_def plugin_on_disk_def plugin_call_def resolve_def
        andThen_def emit_def invoke_def Let_def split: prod.splits)

lemma errCallback_platform_eq:
  "errCallback_platform e s =
     (Rejected e, s\<lparr>exitCode := 1, events := events s @ [platform_warning (itemName s) e]\<rparr>)"
  by (simp add: errCallback_platform_def platform_warning_def andThen_def emit_def reject_def Let_def)

lemma errCallback_plugin_eq:
  "errCallback_plugin e s =
     (Resolved (), s\<lparr>exitCode := 1, events := events s @ [plugin_warning (itemName s) e]\<rparr>)"
  by (simp add: errCallback_plugin_def plugin_warning_def emit_def Let_def)

text \<open>Platform restore: once rejected, the chain stays rejected and installs nothing more.\<close>

lemma platform_fold_rejected:
  "foldl (\<lambda>soFar item. then2 soFar (\<lambda>_. restoreCallback_platform env platforms item) errCallback_platform)
     (Rejected e, s) post =
   (Rejected e,
    if post = [] then s
    else s\<lparr>exitCode := 1, events := events s @ replicate (length post) (platform_warning (itemName s) e)\<rparr>)"
  (is "foldl ?f _ _ = _")
proof (induction post rule: rev_induct)
  case Nil
  show ?case by simp
next
  case (snoc y post)
  show ?case
    apply (simp only: foldl_append foldl.simps snoc)
    apply (cases "post = []"; simp add: then2_def errCallback_platform_eq replicate_append_same)
    done
qed

text \<open>What only grows along a restore: the calls, the events, and an exit code once set.\<close>

lemma grows_refl: "grows s s"
  by (simp add: grows_def)

lemma grows_trans: "grows s s' \<Longrightarrow> grows s' s'' \<Longrightarrow> grows s s''"
  by (auto simp: grows_def)

lemma restoreCallback_platform_grows: "grows s (snd (restoreCallback_platform env platforms item s))"
  by (simp add: restoreCallback_platform_eq grows_def)

lemma restoreCallback_plugin_grows: "grows s (snd (restoreCallback_plugin env item s))"
  by (simp add: restoreCallback_plugin_eq grows_def)

lemma errCallback_platform_grows: "grows s (snd (errCallback_platform e s))"
  by (simp add: errCallback_platform_eq grows_def)

lemma errCallback_plugin_grows: "grows s (snd (errCallback_plugin e s))"
  by (simp add: errCallback_plugin_eq grows_def)

lemma foldl_grows:
  assumes cb: "\<And>item s. grows s (snd (cb item s))" and ecb: "\<And>e s. grows s (snd (ecb e s))"
  shows "grows (snd p) (snd (foldl (\<lambda>soFar item. then2 soFar (\<lambda>_. cb item) ecb) p items))"
proof (induction items rule: rev_induct)
  case Nil
  show ?case by (simp add: grows_refl)
next
  case (snoc x items)
  let ?q = "foldl (\<lambda>soFar item. then2 soFar (\<lambda>_. cb item) ecb) p items"
  have "grows (snd ?q) (snd (then2 ?q (\<lambda>_. cb x) ecb))"
    using cb [of "snd ?q" x] ecb [of "snd ?q"]
    by (cases ?q) (auto simp: then2_def split: settled.splits)
  with snoc show ?case
    by (auto intro: grows_trans)
qed

lemma restore_fold_grows:
  assumes "\<And>item s. grows s (snd (cb item s))" and "\<And>e s. grows s (snd (ecb e s))"
  shows "grows s (snd (restore_fold cb ecb items s))"
  using foldl_grows [where p = "(Resolved (), s)", OF assms] by (simp add: restore_fold_def)

lemma foldl_calls_subseq:
  assumes cb: "\<And>item s. calls (snd (cb item s)) = calls s
                 \<or> (elig item \<and> calls (snd (cb item s)) = calls s @ [call_of item])"
    and ecb: "\<And>e s. calls (snd (ecb e s)) = calls s"
  shows "\<exists>cs. calls (snd (foldl (\<lambda>soFar item. then2 soFar (\<lambda>_. cb item) ecb) p items)) = calls (snd p) @ cs
            \<and> subseq cs (map call_of (filter elig items))"
proof (induction items arbitrary: p)
  case Nil
  show ?case by simp
next
  case (Cons x items)
  let ?q = "then2 p (\<lambda>_. cb x) ecb"
  from Cons [of ?q] obtain cs where
    cs: "calls (snd (foldl (\<lambda>soFar item. then2 soFar (\<lambda>_. cb item) ecb) ?q items)) = calls (snd ?q) @ cs"
      "subseq cs (map call_of (filter elig items))"
    by blast
  have "calls (snd ?q) = calls (snd p) \<or> (elig x \<and> calls (snd ?q) = calls (snd p) @ [call_of x])"
    using cb [of x "snd p"] ecb [of _ "snd p"]
    by (cases p) (auto simp: then2_def split: settled.splits)
  then show ?case
  proof
    assume "calls (snd ?q) = calls (snd p)"
    with cs show ?thesis by (auto intro: subseq_Cons')
  next
    assume "elig x \<and> calls (snd ?q) = calls (snd p) @ [call_of x]"
    with cs show ?thesis by auto
  qed
qed

lemma platform_fold_calls:
  "\<exists>cs. calls (snd (restore_fold (restoreCallback_platform env platforms) errCallback_platform items s)) = calls s @ cs
      \<and> subseq cs (map (platform_call env) (filter (\<lambda>item. \<not> platform_excluded platforms (fst item)) items))"
  unfolding restore_fold_def
  using foldl_calls_subseq [where cb = "restoreCallback_platform env platforms" and ecb = errCallback_platform
      and elig = "\<lambda>item. \<not> platform_excluded platforms (fst item)" and call_of = "platform_call env"
      and p = "(Resolved (), s)" and items = items]
  by (simp add: restoreCallback_platform_eq errCallback_platform_eq)

lemma plugin_fold_calls:
  "\<exists>cs. calls (snd (restore_fold (restoreCallback_plugin env) errCallback_plugin items s)) = calls s @ cs
      \<and> subseq cs (map (plugin_call env) items)"
  unfolding restore_fold_def
  using foldl_calls_subseq [where cb = "restoreCallback_plugin env" and ecb = errCallback_plugin
      and elig = "\<lambda>item. True" and call_of = "plugin_call env"
      and p = "(Resolved (), s)" and items = items]
  by (simp add: restoreCallback_plugin_eq errCallback_plugin_eq)

lemma platform_fold_on_disk:
  "\<forall>item \<in> set items. platform_on_disk env (world s) (fst item) \<Longrightarrow>
   \<exists>nm. restore_fold (restoreCallback_platform env platforms) errCallback_platform items s
          = (Resolved (), s\<lparr>itemName := nm\<rparr>)"
proof (induction items rule: rev_induct)
  case Nil
  have "s = s\<lparr>itemName := itemName s\<rparr>" by simp
  then show ?case unfolding restore_fold_Nil by blast
next
  case (snoc x items)
  then obtain nm where nm: "restore_fold (restoreCallback_platform env platforms) errCallback_platform items s
          = (Resolved (), s\<lparr>itemName := nm\<rparr>)"
    by auto
  from snoc.prems have "platform_on_disk env (world (s\<lparr>itemName := nm\<rparr>)) (fst x)"
    by simp
  then have "restoreCallback_platform env platforms x (s\<lparr>itemName := nm\<rparr>) = (Resolved (), s\<lparr>itemName := fst x\<rparr>)"
    by (simp add: restoreCallback_platform_eq [of env platforms x "s\<lparr>itemName := nm\<rparr>"])
  then show ?case
    unfolding restore_fold_snoc nm by (auto simp: then2_def)
qed

lemma plugin_fold_on_disk:
  "\<forall>item \<in> set items. plugin_on_disk env (world s) (fst item) \<Longrightarrow>
   \<exists>nm. restore_fold (restoreCallback_plugin env) errCallback_plugin items s
          = (Resolved (), s\<lparr>itemName := nm\<rparr>)"
proof (induction items rule: rev_induct)
  case Nil
  have "s = s\<lparr>itemName := itemName s\<rparr>" by simp
  then show ?case unfolding restore_fold_Nil by blast
next
  case (snoc x items)
  then obtain nm where nm: "restore_fold (restoreCallback_plugin env) errCallback_plugin items s
          = (Resolved (), s\<lparr>itemName := nm\<rparr>)"
    by auto
  from snoc.prems have "plugin_on_disk env (world (s\<lparr>itemName := nm\<rparr>)) (fst x)"
    by simp
  then have "restoreCallback_plugin env x (s\<lparr>itemName := nm\<rparr>) = (Resolved (), s\<lparr>itemName := fst x\<rparr>)"
    by (simp add: restoreCallback_plugin_eq [of env x "s\<lparr>itemName := nm\<rparr>"])
  then show ?case
    unfolding restore_fold_snoc nm by (auto simp: then2_def)
qed

lemma restoreCallback_plugin_rejected_name:
  "restoreCallback_plugin env x s1 = (Rejected e, s2) \<Longrightarrow> itemName s2 = fst x"
  by (auto simp: restoreCallback_plugin_eq split: if_splits)

lemma restoreCallback_platform_rejected_name:
  "restoreCallback_platform env platforms x s1 = (Rejected e, s2) \<Longrightarrow> itemName s2 = fst x"
  by (auto simp: restoreCallback_platform_eq split: if_splits)

lemma platform_fold_failure:
  assumes pre: "restore_fold (restoreCallback_platform env platforms) errCallback_platform pre s = (Resolved (), s1)"
    and fail: "restoreCallback_platform env platforms x s1 = (Rejected e, s2)"
  shows "restore_fold (restoreCallback_platform env platforms) errCallback_platform (pre @ x # post) s =
     (Rejected e,
      if post = [] then s2
      else s2\<lparr>exitCode := 1, events := events s2 @ replicate (length post) (platform_warning (fst x) e)\<rparr>)"
proof -
  let ?rf = "restore_fold (restoreCallback_platform env platforms) errCallback_platform"
  have x: "?rf (pre @ [x]) s = (Rejected e, s2)"
    by (simp add: restore_fold_snoc pre then2_def fail)
  have "?rf ((pre @ [x]) @ post) s =
     (Rejected e,
      if post = [] then s2
      else s2\<lparr>exitCode := 1, events := events s2 @ replicate (length post) (platform_warning (fst x) e)\<rparr>)"
    unfolding restore_fold_append [of _ _ "pre @ [x]"] x platform_fold_rejected
    by (simp add: restoreCallback_platform_rejected_name [OF fail])
  then show ?thesis by simp
qed

lemma install_platforms_run:
  "reconcile_platforms env s = (Resolved pkg, s0) \<Longrightarrow>
   installPlatformsFromConfigXML env platforms s =
     restore_fold (restoreCallback_platform env platforms) errCallback_platform (platformInfo pkg) (s0\<lparr>itemName := []\<rparr>)"
  by (simp add: installPlatformsFromConfigXML_def andThen_def)

lemma install_plugins_run:
  "reconcile_plugins env s = (Resolved pkg, s0) \<Longrightarrow>
   installPluginsFromConfigXML env s =
     restore_fold (restoreCallback_plugin env) errCallback_plugin (pluginInfo pkg) (s0\<lparr>itemName := []\<rparr>)"
  by (simp add: installPluginsFromConfigXML_def andThen_def)

lemma turns_Nil: "turns cb [] s = s"
  by (simp add: turns_def)

lemma turns_Cons: "turns cb (x # xs) s = turns cb xs (snd (cb x s))"
  by (simp add: turns_def)

lemma restore_fold_Cons_resolved:
  "cb x s = (Resolved (), sa) \<Longrightarrow> restore_fold cb ecb (x # xs) s = restore_fold cb ecb xs sa"
  by (simp add: restore_fold_def then2_def)

lemma restore_fold_clean:
  "clean_run cb items s \<Longrightarrow> restore_fold cb ecb items s = (Resolved (), turns cb items s)"
proof (induction items arbitrary: s)
  case Nil
  show ?case by (simp add: restore_fold_Nil turns_Nil)
next
  case (Cons x xs)
  obtain r sa where c: "cb x s = (r, sa)" by (cases "cb x s")
  with Cons.prems have r: "r = Resolved ()" and rest: "clean_run cb xs sa"
    by (cases r; simp)+
  from c r have "restore_fold cb ecb (x # xs) s = restore_fold cb ecb xs sa"
    by (simp add: restore_fold_def then2_def)
  with Cons.IH [OF rest] show ?case
    by (simp add: turns_Cons c)
qed

lemma turns_platform_exitCode:
  "exitCode (turns (restoreCallback_platform env platforms) items s) = exitCode s"
  by (induction items arbitrary: s) (simp_all add: turns_Nil turns_Cons restoreCallback_platform_eq)

lemma turns_plugin_exitCode:
  "exitCode (turns (restoreCallback_plugin env) items s) = exitCode s"
  by (induction items arbitrary: s) (simp_all add: turns_Nil turns_Cons restoreCallback_plugin_eq)

lemma platform_fold_failure_clean:
  assumes pre: "clean_run (restoreCallback_platform env platforms) pre s"
    and fail: "restoreCallback_platform env platforms x (turns (restoreCallback_platform env platforms) pre s) = (Rejected e, sb)"
  shows "fst (restore_fold (restoreCallback_platform env platforms) errCallback_platform (pre @ x # post) s) = Rejected e
       \<and> calls (snd (restore_fold (restoreCallback_platform env platforms) errCallback_platform (pre @ x # post) s)) = calls sb
       \<and> world (snd (restore_fold (restoreCallback_platform env platforms) errCallback_platform (pre @ x # post) s)) = world sb"
  unfolding platform_fold_failure [OF restore_fold_clean [OF pre] fail]
  by (cases post) simp_all

lemma handler_platform:
  "restoreCallback_platform env platforms x sa = (Rejected e, sb) \<Longrightarrow>
   errCallback_platform e sb =
     (Rejected e, sb\<lparr>exitCode := 1, events := events sb @ [platform_warning (fst x) e]\<rparr>)"
  by (simp add: errCallback_platform_eq restoreCallback_platform_rejected_name)

lemma handler_plugin:
  "restoreCallback_plugin env y sa = (Rejected e, sb) \<Longrightarrow>
   errCallback_plugin e sb =
     (Resolved (), sb\<lparr>exitCode := 1, events := events sb @ [plugin_warning (fst y) e]\<rparr>)"
  by (simp add: errCallback_plugin_eq restoreCallback_plugin_rejected_name)


text \<open>
  Claim C1, as amended. The fold of a restore runs the install steps one at a time, in
  declaration order, each item's at most once. In a run in which every step is fulfilled,
  each started in the state that the one before it left, the step of every item runs, the
  batch is fulfilled and \<open>process.exitCode\<close> is left as it was. In platform restore, when
  the steps before an item are fulfilled and the install of the item fails, the batch is
  rejected with that error and nothing is installed after it: \<open>errCallback\<close> rejects
  again. Given the failure of an item's install, \<open>errCallback\<close> emits the warning with the
  item's name and the error and sets \<open>process.exitCode\<close> to 1; the one of plugin restore
  is then fulfilled, the one of platform restore rejected with the same error.
\<close>

theorem C1_serial_fold:
  "(\<exists>cs. calls (snd (restore_fold (restoreCallback_plugin env) errCallback_plugin pitems s)) = calls s @ cs
         \<and> subseq cs (map (plugin_call env) pitems))
   \<and> (\<exists>cs. calls (snd (restore_fold (restoreCallback_platform env platforms) errCallback_platform items s)) = calls s @ cs
         \<and> subseq cs (map (platform_call env) items))
   \<and> (clean_run (restoreCallback_plugin env) pitems s \<longrightarrow>
        restore_fold (restoreCallback_plugin env) errCallback_plugin pitems s =
          (Resolved (), turns (restoreCallback_plugin env) pitems s)
        \<and> exitCode (turns (restoreCallback_plugin env) pitems s) = exitCode s)
   \<and> (clean_run (restoreCallback_platform env platforms) items s \<longrightarrow>
        restore_fold (restoreCallback_platform env platforms) errCallback_platform items s =
          (Resolved (), turns (restoreCallback_platform env platforms) items s)
        \<and> exitCode (turns (restoreCallback_platform env platforms) items s) = exitCode s)
   \<and> (clean_run (restoreCallback_platform env platforms) pre s
        \<and> restoreCallback_platform env platforms x (turns (restoreCallback_platform env platforms) pre s) = (Rejected e, sb) \<longrightarrow>
        fst (restore_fold (restoreCallback_platform env platforms) errCallback_platform (pre @ x # post) s) = Rejected e
        \<and> calls (snd (restore_fold (restoreCallback_platform env platforms) errCallback_platform (pre @ x # post) s)) = calls sb
        \<and> world (snd (restore_fold (restoreCallback_platform env platforms) errCallback_platform (pre @ x # post) s)) = world sb)
   \<and> (restoreCallback_platform env platforms x sa = (Rejected e, sb) \<longrightarrow>
        errCallback_platform e sb =
          (Rejected e, sb\<lparr>exitCode := 1, events := events sb @ [platform_warning (fst x) e]\<rparr>))
   \<and> (restoreCallback_plugin env y sc = (Rejected e' , sd) \<longrightarrow>
        errCallback_plugin e' sd =
          (Resolved (), sd\<lparr>exitCode := 1, events := events sd @ [plugin_warning (fst y) e']\<rparr>))
   \<and> (reconcile_platforms env s = (Resolved pkg, sr) \<longrightarrow>
        installPlatformsFromConfigXML env platforms s =
          restore_fold (restoreCallback_platform env platforms) errCallback_platform
            (platformInfo pkg) (sr\<lparr>itemName := []\<rparr>))
   \<and> (reconcile_plugins env s = (Resolved ppkg, st) \<longrightarrow>
        installPluginsFromConfigXML env s =
          restore_fold (restoreCallback_plugin env) errCallback_plugin (pluginInfo ppkg) (st\<lparr>itemName := []\<rparr>))"
proof (intro conjI impI; (elim conjE)?)
  show "\<exists>cs. calls (snd (restore_fold (restoreCallback_plugin env) errCallback_plugin pitems s)) = calls s @ cs
         \<and> subseq cs (map (plugin_call env) pitems)"
    by (rule plugin_fold_calls)
  show "\<exists>cs. calls (snd (restore_fold (restoreCallback_platform env platforms) errCallback_platform items s)) = calls s @ cs
         \<and> subseq cs (map (platform_call env) items)"
  proof -
    from platform_fold_calls [of env platforms items s] obtain cs where
      cs: "calls (snd (restore_fold (restoreCallback_platform env platforms) errCallback_platform items s)) = calls s @ cs"
        "subseq cs (map (platform_call env) (filter (\<lambda>item. \<not> platform_excluded platforms (fst item)) items))"
      by blast
    have "subseq (map (platform_call env) (filter (\<lambda>item. \<not> platform_excluded platforms (fst item)) items))
            (map (platform_call env) items)"
      by (intro subseq_map subseq_filter_left)
    with cs(2) have "subseq cs (map (platform_call env) items)"
      by (rule subseq_order.trans)
    with cs(1) show ?thesis by blast
  qed
  show "restore_fold (restoreCallback_plugin env) errCallback_plugin pitems s =
          (Resolved (), turns (restoreCallback_plugin env) pitems s)"
    if "clean_run (restoreCallback_plugin env) pitems s"
    using that by (rule restore_fold_clean)
  show "exitCode (turns (restoreCallback_plugin env) pitems s) = exitCode s"
    by (rule turns_plugin_exitCode)
  show "restore_fold (restoreCallback_platform env platforms) errCallback_platform items s =
          (Resolved (), turns (restoreCallback_platform env platforms) items s)"
    if "clean_run (restoreCallback_platform env platforms) items s"
    using that by (rule restore_fold_clean)
  show "exitCode (turns (restoreCallback_platform env platforms) items s) = exitCode s"
    by (rule turns_platform_exitCode)
next
  assume pre: "clean_run (restoreCallback_platform env platforms) pre s"
    and fail: "restoreCallback_platform env platforms x (turns (restoreCallback_platform env platforms) pre s) = (Rejected e, sb)"
  note f = platform_fold_failure_clean [OF pre fail, of post]
  from f show "fst (restore_fold (restoreCallback_platform env platforms) errCallback_platform (pre @ x # post) s) = Rejected e"
    by blast
  from f show "calls (snd (restore_fold (restoreCallback_platform env platforms) errCallback_platform (pre @ x # post) s)) = calls sb"
    by blast
  from f show "world (snd (restore_fold (restoreCallback_platform env platforms) errCallback_platform (pre @ x # post) s)) = world sb"
    by blast
next
  assume "restoreCallback_platform env platforms x sa = (Rejected e, sb)"
  then show "errCallback_platform e sb =
          (Rejected e, sb\<lparr>exitCode := 1, events := events sb @ [platform_warning (fst x) e]\<rparr>)"
    by (rule handler_platform)
next
  assume "restoreCallback_plugin env y sc = (Rejected e' , sd)"
  then show "errCallback_plugin e' sd =
          (Resolved (), sd\<lparr>exitCode := 1, events := events sd @ [plugin_warning (fst y) e']\<rparr>)"
    by (rule handler_plugin)
next
  assume "reconcile_platforms env s = (Resolved pkg, sr)"
  then show "installPlatformsFromConfigXML env platforms s =
          restore_fold (restoreCallback_platform env platforms) errCallback_platform
            (platformInfo pkg) (sr\<lparr>itemName := []\<rparr>)"
    by (rule install_platforms_run)
next
  assume "reconcile_plugins env s = (Resolved ppkg, st)"
  then show "installPluginsFromConfigXML env s =
          restore_fold (restoreCallback_plugin env) errCallback_plugin (pluginInfo ppkg) (st\<lparr>itemName := []\<rparr>)"
    by (rule install_plugins_run)
qed


lemma ex_plugin_first:
  "restoreCallback_plugin env_fail (''cordova-plugin-device'', Some ''2.0.0'', []) (proc_ex []) =
     (Rejected (Thrown ''E''),
      (proc_ex [])\<lparr>itemName := ''cordova-plugin-device'',
         events := [(''log'', ''Discovered plugin '' @ dq @ ''cordova-plugin-device'' @ dq @ ''. Adding it to the project'')],
         calls := [PluginAdd ''cordova-plugin-device@2.0.0'' []]\<rparr>)"
  by (simp add: restoreCallback_plugin_eq plugin_on_disk_def plugin_call_def installFrom_cases
        env_fail_def re_env_ex_def proc_ex_def)

lemma ex_plugin_fold:
  "restore_fold (restoreCallback_plugin env_fail) errCallback_plugin
     [(''cordova-plugin-device'', Some ''2.0.0'', []), (''cordova-plugin-camera'', Some ''^6.0.0'', [(''KEY'', ''v'')])]
     (proc_ex []) =
     (Resolved (),
      (proc_ex [])\<lparr>itemName := ''cordova-plugin-device'',
         events := [(''log'', ''Discovered plugin '' @ dq @ ''cordova-plugin-device'' @ dq @ ''. Adding it to the project''),
                    plugin_warning ''cordova-plugin-device'' (Thrown ''E'')],
         calls := [PluginAdd ''cordova-plugin-device@2.0.0'' []],
         exitCode := 1\<rparr>)"
  by (simp add: restore_fold_def then2_def ex_plugin_first errCallback_plugin_eq)

lemma ex_plugin_last:
  "restore_fold (restoreCallback_plugin env_fail) errCallback_plugin
     [(''cordova-plugin-device'', Some ''2.0.0'', [])] (proc_ex []) =
     (Rejected (Thrown ''E''),
      (proc_ex [])\<lparr>itemName := ''cordova-plugin-device'',
         events := [(''log'', ''Discovered plugin '' @ dq @ ''cordova-plugin-device'' @ dq @ ''. Adding it to the project'')],
         calls := [PluginAdd ''cordova-plugin-device@2.0.0'' []]\<rparr>)"
  by (simp add: restore_fold_def then2_def ex_plugin_first)

lemma ex_platform_first:
  "restoreCallback_platform env_fail None (''android'', None) (proc_ex []) =
     (Rejected (Thrown ''E''),
      (proc_ex [])\<lparr>itemName := ''android'',
         events := [(''log'', ''Discovered platform '' @ dq @ ''android'' @ dq @ ''. Adding it to the project'')],
         calls := [PlatformAdd ''android'']\<rparr>)"
  by (simp add: restoreCallback_platform_eq platform_on_disk_def platform_call_def installFrom_cases
        platform_excluded_def installAllPlatforms_def env_fail_def re_env_ex_def proc_ex_def)

lemma ex_platform_fold:
  "restore_fold (restoreCallback_platform env_fail None) errCallback_platform
     [(''android'', None), (''ios'', Some ''^7.0.0'')] (proc_ex []) =
     (Rejected (Thrown ''E''),
      (proc_ex [])\<lparr>itemName := ''android'',
         events := [(''log'', ''Discovered platform '' @ dq @ ''android'' @ dq @ ''. Adding it to the project''),
                    platform_warning ''android'' (Thrown ''E'')],
         calls := [PlatformAdd ''android''],
         exitCode := 1\<rparr>)"
  by (simp add: restore_fold_def then2_def ex_platform_first errCallback_platform_eq)

lemma reconcile_platforms_ex_gen:
  "reconcile_platforms (re_env_ex fl) (proc_ex paths) =
     (Resolved (migrate_platforms cfg_ex (front_matter cfg_ex pkg_ex)),
      (proc_ex paths)\<lparr>events := [(''verbose'', ''Checking for saved platforms that haven'' @ sq @ ''t been added to the project'')]
                       @ platform_info_msgs cfg_ex (front_matter cfg_ex pkg_ex),
                  world := \<lparr>fs_cfg = cfg_ex, fs_pkg = migrate_platforms cfg_ex (front_matter cfg_ex pkg_ex), fs_paths = paths\<rparr>,
                  calls := [SavePackageJson (migrate_platforms cfg_ex (front_matter cfg_ex pkg_ex))]\<rparr>)"
proof -
  have len: "length (pkg_platforms (migrate_platforms cfg_ex (front_matter cfg_ex pkg_ex))) \<noteq> length (pkg_platforms pkg_ex)"
    by (simp add: migrate_platforms_platforms front_matter_frame cfg_ex_def pkg_ex_def)
  have a: "re_readConfig (re_env_ex fl) (world (proc_ex paths)) = Resolved cfg_ex"
    and b: "re_loadPackageJson (re_env_ex fl) (world (proc_ex paths)) = Resolved pkg_ex"
    by (simp_all add: re_env_ex_def proc_ex_def)
  show ?thesis
    unfolding reconcile_platforms_run [OF a b] using len
    by (simp add: Let_def re_env_ex_def proc_ex_def)
qed

lemma reconcile_plugins_ex_gen:
  "reconcile_plugins (re_env_ex fl) (proc_ex paths) =
     (Resolved pkg_ex_plugins,
      (proc_ex paths)\<lparr>events := [(''verbose'', ''Checking for saved plugins that haven'' @ sq @ ''t been added to the project'')]
                       @ plugin_info_msgs cfg_ex pkg_ex,
                  world := \<lparr>fs_cfg = cfg_ex, fs_pkg = pkg_ex_plugins, fs_paths = paths\<rparr>,
                  calls := [SavePackageJson pkg_ex_plugins]\<rparr>)"
proof -
  have len: "length (pkg_plugins pkg_ex_plugins) \<noteq> length (pkg_plugins pkg_ex)"
    by (simp add: pkg_ex_plugins_def pkg_ex_def)
  have a: "re_readConfig (re_env_ex fl) (world (proc_ex paths)) = Resolved cfg_ex"
    and b: "re_loadPackageJson (re_env_ex fl) (world (proc_ex paths)) = Resolved pkg_ex"
    by (simp_all add: re_env_ex_def proc_ex_def)
  show ?thesis
    unfolding reconcile_plugins_run [OF b a migrate_plugins_ex] using len
    by (simp add: Let_def re_env_ex_def proc_ex_def)
qed

lemma platforms_ex_after: "pkg_platforms (migrate_platforms cfg_ex (front_matter cfg_ex pkg_ex)) = [''android'', ''ios'']"
  by (simp add: migrate_platforms_platforms front_matter_frame cfg_ex_def pkg_ex_def)

lemma platformInfo_ex:
  "platformInfo (migrate_platforms cfg_ex (front_matter cfg_ex pkg_ex)) = [(''android'', None), (''ios'', Some ''^7.0.0'')]"
  by (simp add: platformInfo_def migrate_platforms_def migrate_engine_def engine_migrates_def front_matter_def
        platformModule_def cfg_ex_def pkg_ex_def obj_assign_def obj_get_def js_or_def js_in_def has_key_def
        object_prototype_keys_def truthy_def or_default_def Let_def)

lemma ex_install_platforms:
  "fst (installPlatformsFromConfigXML env_fail None (proc_ex [])) = Rejected (Thrown ''E'')
   \<and> calls (snd (installPlatformsFromConfigXML env_fail None (proc_ex []))) =
       [SavePackageJson (migrate_platforms cfg_ex (front_matter cfg_ex pkg_ex)), PlatformAdd ''android'']"
proof -
  let ?sr = "snd (reconcile_platforms env_fail (proc_ex []))"
  have rec: "reconcile_platforms env_fail (proc_ex []) =
      (Resolved (migrate_platforms cfg_ex (front_matter cfg_ex pkg_ex)), ?sr)"
    by (simp add: env_fail_def reconcile_platforms_ex_gen)
  have first: "restoreCallback_platform env_fail None (''android'', None) (?sr\<lparr>itemName := []\<rparr>) =
     (Rejected (Thrown ''E''),
      ?sr\<lparr>itemName := ''android'',
         events := events ?sr @ [(''log'', ''Discovered platform '' @ dq @ ''android'' @ dq @ ''. Adding it to the project'')],
         calls := [SavePackageJson (migrate_platforms cfg_ex (front_matter cfg_ex pkg_ex)), PlatformAdd ''android'']\<rparr>)"
    by (simp add: env_fail_def reconcile_platforms_ex_gen)
       (simp add: restoreCallback_platform_eq platform_on_disk_def platform_call_def installFrom_cases
          platform_excluded_def installAllPlatforms_def re_env_ex_def proc_ex_def)
  show ?thesis
    unfolding install_platforms_run [OF rec] platformInfo_ex
    by (simp add: restore_fold_def then2_def first errCallback_platform_eq)
qed

lemma pluginInfo_ex:
  "pluginInfo pkg_ex_plugins =
     [(''cordova-plugin-device'', Some ''2.0.0'', []), (''cordova-plugin-camera'', Some ''^6.0.0'', [(''KEY'', ''v'')])]"
  by (simp add: pluginInfo_def pkg_ex_plugins_def pkg_ex_def obj_assign_def obj_keys_def obj_get_def Let_def)

lemmas restore_eval = restoreCallback_plugin_eq restoreCallback_platform_eq plugin_on_disk_def
  platform_on_disk_def plugin_call_def platform_call_def installFrom_cases platform_excluded_def
  installAllPlatforms_def env_fail_def re_env_ex_def proc_ex_def

lemma ex_platform_ios:
  "restoreCallback_platform env_fail None (''ios'', Some ''^7.0.0'') (proc_ex []) =
     (Resolved (),
      (proc_ex [])\<lparr>itemName := ''ios'',
         events := [(''log'', ''Discovered platform '' @ dq @ ''ios'' @ dq @ ''. Adding it to the project'')],
         calls := [PlatformAdd ''ios@^7.0.0'']\<rparr>)"
  by (simp add: restore_eval)

lemma ex_platform_android_after_ios:
  "restoreCallback_platform env_fail None (''android'', None)
     (snd (restoreCallback_platform env_fail None (''ios'', Some ''^7.0.0'') (proc_ex []))) =
     (Rejected (Thrown ''E''),
      (proc_ex [])\<lparr>itemName := ''android'',
         events := [(''log'', ''Discovered platform '' @ dq @ ''ios'' @ dq @ ''. Adding it to the project''),
                    (''log'', ''Discovered platform '' @ dq @ ''android'' @ dq @ ''. Adding it to the project'')],
         calls := [PlatformAdd ''ios@^7.0.0'', PlatformAdd ''android'']\<rparr>)"
  unfolding ex_platform_ios by (simp add: restore_eval)

lemma ex_plugin_camera:
  "restoreCallback_plugin env_fail (''cordova-plugin-camera'', Some ''^6.0.0'', [(''KEY'', ''v'')]) (proc_ex []) =
     (Resolved (),
      (proc_ex [])\<lparr>itemName := ''cordova-plugin-camera'',
         events := [(''log'', ''Discovered plugin '' @ dq @ ''cordova-plugin-camera'' @ dq @ ''. Adding it to the project'')],
         calls := [PluginAdd ''cordova-plugin-camera@^6.0.0'' [(''KEY'', ''v'')]]\<rparr>)"
  by (simp add: restore_eval)

theorem C1_serial_fold_witness:
  "clean_run (restoreCallback_plugin env_fail) [(''cordova-plugin-camera'', Some ''^6.0.0'', [(''KEY'', ''v'')])] (proc_ex [])
   \<and> fst (restore_fold (restoreCallback_plugin env_fail) errCallback_plugin
            [(''cordova-plugin-camera'', Some ''^6.0.0'', [(''KEY'', ''v'')])] (proc_ex [])) = Resolved ()
   \<and> calls (snd (restore_fold (restoreCallback_plugin env_fail) errCallback_plugin
            [(''cordova-plugin-camera'', Some ''^6.0.0'', [(''KEY'', ''v'')])] (proc_ex []))) =
       [PluginAdd ''cordova-plugin-camera@^6.0.0'' [(''KEY'', ''v'')]]
   \<and> exitCode (snd (restore_fold (restoreCallback_plugin env_fail) errCallback_plugin
            [(''cordova-plugin-camera'', Some ''^6.0.0'', [(''KEY'', ''v'')])] (proc_ex []))) = 0
   \<and> \<not> clean_run (restoreCallback_plugin env_fail)
          [(''cordova-plugin-device'', Some ''2.0.0'', []), (''cordova-plugin-camera'', Some ''^6.0.0'', [(''KEY'', ''v'')])]
          (proc_ex [])
   \<and> clean_run (restoreCallback_platform env_fail None) [(''ios'', Some ''^7.0.0'')] (proc_ex [])
   \<and> fst (restore_fold (restoreCallback_platform env_fail None) errCallback_platform
            [(''ios'', Some ''^7.0.0'')] (proc_ex [])) = Resolved ()
   \<and> calls (snd (restore_fold (restoreCallback_platform env_fail None) errCallback_platform
            [(''ios'', Some ''^7.0.0'')] (proc_ex []))) = [PlatformAdd ''ios@^7.0.0'']
   \<and> exitCode (snd (restore_fold (restoreCallback_platform env_fail None) errCallback_platform
            [(''ios'', Some ''^7.0.0'')] (proc_ex []))) = 0
   \<and> fst (restore_fold (restoreCallback_platform env_fail None) errCallback_platform
            [(''ios'', Some ''^7.0.0''), (''android'', None), (''browser'', None)] (proc_ex [])) = Rejected (Thrown ''E'')
   \<and> calls (snd (restore_fold (restoreCallback_platform env_fail None) errCallback_platform
            [(''ios'', Some ''^7.0.0''), (''android'', None), (''browser'', None)] (proc_ex []))) =
       [PlatformAdd ''ios@^7.0.0'', PlatformAdd ''android'']
   \<and> errCallback_platform (Thrown ''E'') (snd (restoreCallback_platform env_fail None (''android'', None) (proc_ex []))) =
       (Rejected (Thrown ''E''),
        (snd (restoreCallback_platform env_fail None (''android'', None) (proc_ex [])))
          \<lparr>exitCode := 1,
           events := events (snd (restoreCallback_platform env_fail None (''android'', None) (proc_ex [])))
                       @ [platform_warning ''android'' (Thrown ''E'')]\<rparr>)
   \<and> errCallback_plugin (Thrown ''E'')
        (snd (restoreCallback_plugin env_fail (''cordova-plugin-device'', Some ''2.0.0'', []) (proc_ex []))) =
       (Resolved (),
        (snd (restoreCallback_plugin env_fail (''cordova-plugin-device'', Some ''2.0.0'', []) (proc_ex [])))
          \<lparr>exitCode := 1,
           events := events (snd (restoreCallback_plugin env_fail (''cordova-plugin-device'', Some ''2.0.0'', []) (proc_ex [])))
                       @ [plugin_warning ''cordova-plugin-device'' (Thrown ''E'')]\<rparr>)
   \<and> installPlatformsFromConfigXML env_fail None (proc_ex []) =
       restore_fold (restoreCallback_platform env_fail None) errCallback_platform
         [(''android'', None), (''ios'', Some ''^7.0.0'')]
         ((snd (reconcile_platforms env_fail (proc_ex [])))\<lparr>itemName := []\<rparr>)
   \<and> installPluginsFromConfigXML env_fail (proc_ex []) =
       restore_fold (restoreCallback_plugin env_fail) errCallback_plugin
         [(''cordova-plugin-device'', Some ''2.0.0'', []), (''cordova-plugin-camera'', Some ''^6.0.0'', [(''KEY'', ''v'')])]
         ((snd (reconcile_plugins env_fail (proc_ex [])))\<lparr>itemName := []\<rparr>)"
proof -
  let ?cam = "(''cordova-plugin-camera'', Some ''^6.0.0'', [(''KEY'', ''v'')])"
  let ?dev = "(''cordova-plugin-device'', Some ''2.0.0'', [])"
  have cp: "clean_run (restoreCallback_plugin env_fail) [?cam] (proc_ex [])"
    by (simp add: ex_plugin_camera)
  have ncp: "\<not> clean_run (restoreCallback_plugin env_fail) [?dev, ?cam] (proc_ex [])"
    by (simp add: ex_plugin_first)
  have cq: "clean_run (restoreCallback_platform env_fail None) [(''ios'', Some ''^7.0.0'')] (proc_ex [])"
    by (simp add: ex_platform_ios)
  have tp: "turns (restoreCallback_plugin env_fail) [?cam] (proc_ex []) =
      snd (restoreCallback_plugin env_fail ?cam (proc_ex []))"
    and tq: "turns (restoreCallback_platform env_fail None) [(''ios'', Some ''^7.0.0'')] (proc_ex []) =
      snd (restoreCallback_platform env_fail None (''ios'', Some ''^7.0.0'') (proc_ex []))"
    by (simp_all add: turns_def)
  have fa: "restoreCallback_platform env_fail None (''android'', None) (proc_ex []) =
      (Rejected (Thrown ''E''), snd (restoreCallback_platform env_fail None (''android'', None) (proc_ex [])))"
    and fd: "restoreCallback_plugin env_fail ?dev (proc_ex []) =
      (Rejected (Thrown ''E''), snd (restoreCallback_plugin env_fail ?dev (proc_ex [])))"
    by (simp_all add: ex_platform_first ex_plugin_first)
  have z: "exitCode (proc_ex []) = 0"
    by (simp add: proc_ex_def)
  note a = C1_serial_fold [where env = env_fail and pitems = "[?cam]" and s = "proc_ex []",
      THEN conjunct2, THEN conjunct2, THEN conjunct1, THEN mp, OF cp, unfolded tp ex_plugin_camera z]
  note b = C1_serial_fold [where env = env_fail and platforms = None and items = "[(''ios'', Some ''^7.0.0'')]"
      and s = "proc_ex []",
      THEN conjunct2, THEN conjunct2, THEN conjunct2, THEN conjunct1, THEN mp, OF cq, unfolded tq ex_platform_ios z]
  note c = C1_serial_fold [where env = env_fail and platforms = None and pre = "[(''ios'', Some ''^7.0.0'')]"
      and s = "proc_ex []" and x = "(''android'', None)" and post = "[(''browser'', None)]",
      THEN conjunct2, THEN conjunct2, THEN conjunct2, THEN conjunct2, THEN conjunct1, THEN mp,
      OF conjI, OF cq, unfolded tq, OF ex_platform_android_after_ios, unfolded append.simps]
  note d = C1_serial_fold [where env = env_fail and platforms = None and x = "(''android'', None)" and sa = "proc_ex []",
      THEN conjunct2, THEN conjunct2, THEN conjunct2, THEN conjunct2, THEN conjunct2, THEN conjunct1, THEN mp,
      OF fa]
  note e = C1_serial_fold [where env = env_fail and y = ?dev and sc = "proc_ex []",
      THEN conjunct2, THEN conjunct2, THEN conjunct2, THEN conjunct2, THEN conjunct2, THEN conjunct2,
      THEN conjunct1, THEN mp, OF fd]
  from a have a': "fst (restore_fold (restoreCallback_plugin env_fail) errCallback_plugin [?cam] (proc_ex [])) = Resolved ()"
    "calls (snd (restore_fold (restoreCallback_plugin env_fail) errCallback_plugin [?cam] (proc_ex []))) =
       [PluginAdd ''cordova-plugin-camera@^6.0.0'' [(''KEY'', ''v'')]]"
    "exitCode (snd (restore_fold (restoreCallback_plugin env_fail) errCallback_plugin [?cam] (proc_ex []))) = 0"
    by simp_all
  from b have b': "fst (restore_fold (restoreCallback_platform env_fail None) errCallback_platform
            [(''ios'', Some ''^7.0.0'')] (proc_ex [])) = Resolved ()"
    "calls (snd (restore_fold (restoreCallback_platform env_fail None) errCallback_platform
            [(''ios'', Some ''^7.0.0'')] (proc_ex []))) = [PlatformAdd ''ios@^7.0.0'']"
    "exitCode (snd (restore_fold (restoreCallback_platform env_fail None) errCallback_platform
            [(''ios'', Some ''^7.0.0'')] (proc_ex []))) = 0"
    by simp_all
  from c have c': "fst (restore_fold (restoreCallback_platform env_fail None) errCallback_platform
            [(''ios'', Some ''^7.0.0''), (''android'', None), (''browser'', None)] (proc_ex [])) = Rejected (Thrown ''E'')"
    "calls (snd (restore_fold (restoreCallback_platform env_fail None) errCallback_platform
            [(''ios'', Some ''^7.0.0''), (''android'', None), (''browser'', None)] (proc_ex []))) =
       [PlatformAdd ''ios@^7.0.0'', PlatformAdd ''android'']"
    by simp_all
  from d have d': "errCallback_platform (Thrown ''E'') (snd (restoreCallback_platform env_fail None (''android'', None) (proc_ex []))) =
       (Rejected (Thrown ''E''),
        (snd (restoreCallback_platform env_fail None (''android'', None) (proc_ex [])))
          \<lparr>exitCode := 1,
           events := events (snd (restoreCallback_platform env_fail None (''android'', None) (proc_ex [])))
                       @ [platform_warning ''android'' (Thrown ''E'')]\<rparr>)"
    by simp
  from e have e': "errCallback_plugin (Thrown ''E'')
        (snd (restoreCallback_plugin env_fail ?dev (proc_ex []))) =
       (Resolved (),
        (snd (restoreCallback_plugin env_fail ?dev (proc_ex [])))
          \<lparr>exitCode := 1,
           events := events (snd (restoreCallback_plugin env_fail ?dev (proc_ex [])))
                       @ [plugin_warning ''cordova-plugin-device'' (Thrown ''E'')]\<rparr>)"
    by simp
  have rq: "reconcile_platforms env_fail (proc_ex []) =
      (Resolved (migrate_platforms cfg_ex (front_matter cfg_ex pkg_ex)), snd (reconcile_platforms env_fail (proc_ex [])))"
    and rp: "reconcile_plugins env_fail (proc_ex []) =
      (Resolved pkg_ex_plugins, snd (reconcile_plugins env_fail (proc_ex [])))"
    by (simp_all add: env_fail_def reconcile_platforms_ex_gen reconcile_plugins_ex_gen)
  note f = C1_serial_fold [where env = env_fail and platforms = None and s = "proc_ex []",
      THEN conjunct2, THEN conjunct2, THEN conjunct2, THEN conjunct2, THEN conjunct2, THEN conjunct2,
      THEN conjunct2, THEN conjunct1, THEN mp, OF rq, unfolded platformInfo_ex]
  note g = C1_serial_fold [where env = env_fail and s = "proc_ex []",
      THEN conjunct2, THEN conjunct2, THEN conjunct2, THEN conjunct2, THEN conjunct2, THEN conjunct2,
      THEN conjunct2, THEN conjunct2, THEN mp, OF rp, unfolded pluginInfo_ex]
  from cp a' ncp cq b' c' d' e' f g show ?thesis by blast
qed

text \<open>
  The claim as stated fails. After the reconciliation the platforms \<open>android\<close> and \<open>ios\<close>
  are declared, and both are absent from disk. The install of \<open>android\<close> fails: platform
  restore is rejected with that error, and the install of \<open>ios\<close> is never invoked.
\<close>

theorem C1_counterexample:
  "platformInfo (migrate_platforms cfg_ex (front_matter cfg_ex pkg_ex)) = [(''android'', None), (''ios'', Some ''^7.0.0'')]
   \<and> \<not> platform_on_disk env_fail (world (proc_ex [])) ''ios''
   \<and> fst (installPlatformsFromConfigXML env_fail None (proc_ex [])) = Rejected (Thrown ''E'')
   \<and> calls (snd (installPlatformsFromConfigXML env_fail None (proc_ex []))) =
       [SavePackageJson (migrate_platforms cfg_ex (front_matter cfg_ex pkg_ex)), PlatformAdd ''android'']
   \<and> fst (restore_fold (restoreCallback_platform env_fail None) errCallback_platform
            [(''android'', None), (''ios'', Some ''^7.0.0'')] (proc_ex [])) = Rejected (Thrown ''E'')
   \<and> calls (snd (restore_fold (restoreCallback_platform env_fail None) errCallback_platform
            [(''android'', None), (''ios'', Some ''^7.0.0'')] (proc_ex []))) = [PlatformAdd ''android'']"
  by (simp add: ex_platform_fold platformInfo_ex ex_install_platforms)
     (simp add: proc_ex_def platform_on_disk_def env_fail_def re_env_ex_def)

subsection \<open>Restore: which items are installed\<close>

lemma platform_fold_on_disk_calls:
  assumes "\<forall>item \<in> set items. platform_on_disk env (world s) (fst item)"
  shows "fst (restore_fold (restoreCallback_platform env platforms) errCallback_platform items s) = Resolved ()
     \<and> calls (snd (restore_fold (restoreCallback_platform env platforms) errCallback_platform items s)) = calls s
     \<and> world (snd (restore_fold (restoreCallback_platform env platforms) errCallback_platform items s)) = world s"
  using platform_fold_on_disk [OF assms, of platforms] by auto

lemma plugin_fold_on_disk_calls:
  assumes "\<forall>item \<in> set items. plugin_on_disk env (world s) (fst item)"
  shows "fst (restore_fold (restoreCallback_plugin env) errCallback_plugin items s) = Resolved ()
     \<and> calls (snd (restore_fold (restoreCallback_plugin env) errCallback_plugin items s)) = calls s
     \<and> world (snd (restore_fold (restoreCallback_plugin env) errCallback_plugin items s)) = world s"
  using plugin_fold_on_disk [OF assms] by auto

lemma install_platforms_on_disk:
  assumes rec: "reconcile_platforms env s = (Resolved pkg, sa)"
    and disk: "\<forall>n \<in> set (pkg_platforms pkg). platform_on_disk env (world sa) n"
  shows "fst (installPlatformsFromConfigXML env platforms s) = Resolved ()
     \<and> calls (snd (installPlatformsFromConfigXML env platforms s)) = calls sa
     \<and> world (snd (installPlatformsFromConfigXML env platforms s)) = world sa"
proof -
  from disk have "\<forall>item \<in> set (platformInfo pkg). platform_on_disk env (world (sa\<lparr>itemName := []\<rparr>)) (fst item)"
    by (auto simp: platformInfo_def Let_def)
  from platform_fold_on_disk_calls [OF this, of platforms] show ?thesis
    by (simp add: install_platforms_run [OF rec])
qed

lemma install_plugins_on_disk:
  assumes rec: "reconcile_plugins env s = (Resolved pkg, sa)"
    and disk: "\<forall>n \<in> set (obj_keys (pkg_plugins pkg)). plugin_on_disk env (world sa) n"
  shows "fst (installPluginsFromConfigXML env s) = Resolved ()
     \<and> calls (snd (installPluginsFromConfigXML env s)) = calls sa
     \<and> world (snd (installPluginsFromConfigXML env s)) = world sa"
proof -
  from disk have "\<forall>item \<in> set (pluginInfo pkg). plugin_on_disk env (world (sa\<lparr>itemName := []\<rparr>)) (fst item)"
    by (auto simp: pluginInfo_def Let_def)
  from plugin_fold_on_disk_calls [OF this] show ?thesis
    by (simp add: install_plugins_run [OF rec])
qed

text \<open>
  Claim C9 at an input where the code departs from it. The plugins
  \<open>cordova-plugin-device\<close> and \<open>cordova-plugin-camera\<close> are declared after the
  reconciliation and absent from disk, and the install of the first is rejected. The
  restore ends fulfilled, with the exit code set, and without having invoked the install
  of \<open>cordova-plugin-camera\<close>: the fold gave the turn of that plugin to \<open>errCallback\<close>.
\<close>

theorem C9_failing_input:
  "has_key ''cordova-plugin-camera'' (pkg_plugins pkg_ex_plugins)
   \<and> fst (reconcile_plugins env_fail (proc_ex [])) = Resolved pkg_ex_plugins
   \<and> \<not> plugin_on_disk env_fail (world (proc_ex [])) ''cordova-plugin-camera''
   \<and> \<not> plugin_on_disk env_fail (world (snd (installPluginsFromConfigXML env_fail (proc_ex [])))) ''cordova-plugin-camera''
   \<and> fst (installPluginsFromConfigXML env_fail (proc_ex [])) = Resolved ()
   \<and> exitCode (snd (installPluginsFromConfigXML env_fail (proc_ex []))) = 1
   \<and> calls (snd (installPluginsFromConfigXML env_fail (proc_ex []))) =
       [SavePackageJson pkg_ex_plugins, PluginAdd ''cordova-plugin-device@2.0.0'' []]"
proof -
  have items: "pluginInfo pkg_ex_plugins =
      [(''cordova-plugin-device'', Some ''2.0.0'', []), (''cordova-plugin-camera'', Some ''^6.0.0'', [(''KEY'', ''v'')])]"
    by (simp add: pluginInfo_def pkg_ex_plugins_def pkg_ex_def obj_assign_def obj_keys_def obj_get_def Let_def)
  let ?sa = "snd (reconcile_plugins env_fail (proc_ex []))"
  have first: "restoreCallback_plugin env_fail (''cordova-plugin-device'', Some ''2.0.0'', []) (?sa\<lparr>itemName := []\<rparr>) =
     (Rejected (Thrown ''E''),
      ?sa\<lparr>itemName := ''cordova-plugin-device'',
         events := events ?sa @ [(''log'', ''Discovered plugin '' @ dq @ ''cordova-plugin-device'' @ dq @ ''. Adding it to the project'')],
         calls := [SavePackageJson pkg_ex_plugins, PluginAdd ''cordova-plugin-device@2.0.0'' []]\<rparr>)"
    by (simp add: env_fail_def reconcile_plugins_ex_gen)
       (simp add: restoreCallback_plugin_eq plugin_on_disk_def plugin_call_def installFrom_cases
          re_env_ex_def proc_ex_def)
  have rec: "reconcile_plugins env_fail (proc_ex []) = (Resolved pkg_ex_plugins, ?sa)"
    by (simp add: env_fail_def reconcile_plugins_ex_gen)
  have run: "installPluginsFromConfigXML env_fail (proc_ex []) =
     (Resolved (),
      ?sa\<lparr>itemName := ''cordova-plugin-device'',
         events := events ?sa @ [(''log'', ''Discovered plugin '' @ dq @ ''cordova-plugin-device'' @ dq @ ''. Adding it to the project''),
                                 plugin_warning ''cordova-plugin-device'' (Thrown ''E'')],
         calls := [SavePackageJson pkg_ex_plugins, PluginAdd ''cordova-plugin-device@2.0.0'' []],
         exitCode := 1\<rparr>)"
    unfolding install_plugins_run [OF rec]
    by (simp add: items restore_fold_def then2_def first errCallback_plugin_eq)
  show ?thesis
    unfolding run
    by (simp add: env_fail_def reconcile_plugins_ex_gen)
       (simp add: has_key_def pkg_ex_plugins_def pkg_ex_def plugin_on_disk_def re_env_ex_def proc_ex_def)
qed

subsection \<open>Plugin removal: the order of the uninstall calls\<close>

lemma andThen_rejected: "m s = (Rejected e, s') \<Longrightarrow> andThen m f s = (Rejected e, s')"
  by (simp add: andThen_def)

lemma andThen_resolved: "m s = (Resolved a, s') \<Longrightarrow> andThen m f s = f a s'"
  by (simp add: andThen_def)

lemma removePluginFromPlatform_calls:
  "calls (snd (removePluginFromPlatform env target p s)) = calls s
   \<or> calls (snd (removePluginFromPlatform env target p s)) = calls s @ [UninstallPlatform p target]"
  by (auto simp: removePluginFromPlatform_def andThen_def query_def emit_def invoke_def
        split: settled.splits prod.splits)

lemma removePluginFromPlatform_resolved:
  "fst (removePluginFromPlatform env target p s) = Resolved () \<Longrightarrow>
   calls (snd (removePluginFromPlatform env target p s)) = calls s @ [UninstallPlatform p target]"
  by (auto simp: removePluginFromPlatform_def andThen_def query_def emit_def invoke_def
        split: settled.splits prod.splits)

lemma chain_calls_subseq:
  assumes "\<And>x s. calls (snd (f x s)) = calls s \<or> calls (snd (f x s)) = calls s @ [c x]"
  shows "\<exists>ps. subseq ps xs \<and> calls (snd (Q_chainmap pol xs f s)) = calls s @ map c ps"
proof (induction xs arbitrary: s)
  case Nil
  show ?case by simp
next
  case (Cons x xs)
  obtain r sa where f: "f x s = (r, sa)" by (cases "f x s")
  from assms [of x s] f have one: "calls sa = calls s \<or> calls sa = calls s @ [c x]" by simp
  let ?sb = "sa\<lparr>failures := failures sa @ [(x, case r of Rejected e \<Rightarrow> e | _ \<Rightarrow> undefined)], exitCode := 1\<rparr>"
  have "\<exists>ps. subseq ps xs \<and> calls (snd (Q_chainmap pol (x # xs) f s)) = calls sa @ map c ps"
  proof (cases r)
    case (Resolved u)
    with Cons [of sa] f show ?thesis by simp
  next
    case (Rejected e)
    show ?thesis
    proof (cases pol)
      case StopAtRejection
      with Rejected f have "calls (snd (Q_chainmap pol (x # xs) f s)) = calls sa @ map c []" by simp
      then show ?thesis by (metis list_emb_Nil)
    next
      case IsolateRejections
      with Rejected f Cons [of "sa\<lparr>failures := failures sa @ [(x, e)], exitCode := 1\<rparr>"]
      show ?thesis by simp
    qed
  qed
  then obtain ps where ps: "subseq ps xs" "calls (snd (Q_chainmap pol (x # xs) f s)) = calls sa @ map c ps"
    by blast
  from one show ?case
  proof
    assume "calls sa = calls s"
    with ps have "subseq ps (x # xs) \<and> calls (snd (Q_chainmap pol (x # xs) f s)) = calls s @ map c ps"
      by (simp del: Q_chainmap.simps add: list_emb_Cons)
    then show ?thesis by blast
  next
    assume "calls sa = calls s @ [c x]"
    with ps have "subseq (x # ps) (x # xs) \<and> calls (snd (Q_chainmap pol (x # xs) f s)) = calls s @ map c (x # ps)"
      by (simp del: Q_chainmap.simps)
    then show ?thesis by blast
  qed
qed

lemma chain_clean:
  assumes "clean_run f xs s"
    and "\<And>x u. fst (f x u) = Resolved () \<Longrightarrow> calls (snd (f x u)) = calls u @ [c x]"
  shows "fst (Q_chainmap pol xs f s) = Resolved () \<and> calls (snd (Q_chainmap pol xs f s)) = calls s @ map c xs"
  using assms(1)
proof (induction xs arbitrary: s)
  case Nil
  show ?case by simp
next
  case (Cons x xs)
  obtain r sa where f: "f x s = (r, sa)" by (cases "f x s")
  with Cons.prems have r: "r = Resolved ()" and rest: "clean_run f xs sa"
    by (cases r; simp)+
  from assms(2) [of x s] f r have c: "calls sa = calls s @ [c x]" by simp
  from Cons.IH [OF rest] show ?case by (simp add: f r c)
qed

lemma chain_stop_clean:
  "fst (Q_chainmap StopAtRejection xs f s) = Resolved () \<Longrightarrow> clean_run f xs s"
proof (induction xs arbitrary: s)
  case Nil
  show ?case by simp
next
  case (Cons x xs)
  obtain r sa where f: "f x s = (r, sa)" by (cases "f x s")
  with Cons show ?case by (cases r) simp_all
qed

lemma rp_platforms_calls:
  "\<exists>ps. subseq ps platformList
     \<and> calls (snd (rp_platforms env pol platformList target s)) = calls s @ map (\<lambda>p. UninstallPlatform p target) ps"
  unfolding rp_platforms_def
  by (rule chain_calls_subseq) (rule removePluginFromPlatform_calls)

lemma rp_platforms_clean:
  assumes "clean_run (removePluginFromPlatform env target) platformList s"
  shows "fst (rp_platforms env pol platformList target s) = Resolved ()
       \<and> calls (snd (rp_platforms env pol platformList target s)) =
           calls s @ map (\<lambda>p. UninstallPlatform p target) platformList"
  unfolding rp_platforms_def
  using assms by (rule chain_clean) (rule removePluginFromPlatform_resolved)

lemma rp_uninstall_calls:
  "calls (snd (rp_uninstall env target s)) = calls s @ [UninstallPlugin target]"
  by (simp add: rp_uninstall_def invoke_def split: prod.splits)

lemma persistRemovalToCfg_calls:
  "calls (snd (persistRemovalToCfg env target s)) = calls s
   \<or> calls (snd (persistRemovalToCfg env target s)) = calls s @ [CfgRemovePlugin target]"
  by (auto simp: persistRemovalToCfg_def andThen_def query_def emit_def invoke_def resolve_def
        split: settled.splits prod.splits)

lemma persistRemovalToPkg_calls:
  "calls (snd (persistRemovalToPkg env target s)) = calls s
   \<or> calls (snd (persistRemovalToPkg env target s)) = calls s @ [PkgRemovePlugin target]"
  by (auto simp: persistRemovalToPkg_def andThen_def query_def emit_def invoke_def resolve_def
        split: settled.splits prod.splits)

lemma rp_metadata_calls:
  "calls (snd (rp_metadata env target s)) = calls s @ [RemoveFetchMetadata target]"
  by (simp add: rp_metadata_def andThen_def emit_def invoke_def split: prod.splits)

lemma andThen_calls:
  assumes "\<And>s. \<exists>r. calls (snd (m s)) = calls s @ r \<and> subseq r xs"
    and "\<And>a s. \<exists>r. calls (snd (f a s)) = calls s @ r \<and> subseq r ys"
  shows "\<exists>r. calls (snd (andThen m f s)) = calls s @ r \<and> subseq r (xs @ ys)"
proof -
  obtain x sa where m: "m s = (x, sa)" by (cases "m s")
  from assms(1) [of s] m obtain r where r: "calls sa = calls s @ r" "subseq r xs" by auto
  show ?thesis
  proof (cases x)
    case (Rejected e)
    with m r have "calls (snd (andThen m f s)) = calls s @ r \<and> subseq r (xs @ ys)"
      by (simp add: andThen_def list_emb_append2 [where zs = "[]", simplified] subseq_rev_drop_many)
    then show ?thesis by blast
  next
    case (Resolved a)
    from assms(2) [of a sa] obtain q where q: "calls (snd (f a sa)) = calls sa @ q" "subseq q ys" by auto
    with m r Resolved have "calls (snd (andThen m f s)) = calls s @ (r @ q) \<and> subseq (r @ q) (xs @ ys)"
      by (simp add: andThen_def list_emb_append_mono)
    then show ?thesis by blast
  qed
qed

lemma rp_persist_calls:
  "\<exists>r. calls (snd (rp_persist env opts target s)) = calls s @ r
      \<and> subseq r [CfgRemovePlugin target, PkgRemovePlugin target]"
proof (cases "opt_save opts")
  case False
  then show ?thesis by (simp add: rp_persist_def resolve_def)
next
  case True
  have c: "\<exists>r. calls (snd (persistRemovalToCfg env target s)) = calls s @ r \<and> subseq r [CfgRemovePlugin target]" for s
    using persistRemovalToCfg_calls [of env target s] by auto
  have p: "\<exists>r. calls (snd (persistRemovalToPkg env target s)) = calls s @ r \<and> subseq r [PkgRemovePlugin target]" for s
    using persistRemovalToPkg_calls [of env target s] by auto
  from andThen_calls [of "persistRemovalToCfg env target" "[CfgRemovePlugin target]"
      "\<lambda>_. persistRemovalToPkg env target" "[PkgRemovePlugin target]" s, OF c p]
  show ?thesis using True by (simp add: rp_persist_def)
qed

lemma removal_tail_calls:
  "\<exists>rest. calls (snd (andThen (rp_uninstall env target)
             (\<lambda>_. andThen (rp_persist env opts target) (\<lambda>_. rp_metadata env target)) s)) =
           calls s @ UninstallPlugin target # rest
      \<and> subseq rest [CfgRemovePlugin target, PkgRemovePlugin target, RemoveFetchMetadata target]"
proof -
  obtain x sa where u: "rp_uninstall env target s = (x, sa)" by (cases "rp_uninstall env target s")
  with rp_uninstall_calls [of env target s] have sa: "calls sa = calls s @ [UninstallPlugin target]" by simp
  show ?thesis
  proof (cases x)
    case (Rejected e)
    with u sa show ?thesis by (simp add: andThen_def)
  next
    case (Resolved a)
    have m: "\<exists>r. calls (snd (rp_metadata env target s)) = calls s @ r \<and> subseq r [RemoveFetchMetadata target]" for s
      using rp_metadata_calls [of env target s] by simp
    from andThen_calls [of "rp_persist env opts target" "[CfgRemovePlugin target, PkgRemovePlugin target]"
        "\<lambda>_. rp_metadata env target" "[RemoveFetchMetadata target]" sa, OF rp_persist_calls m]
    obtain r where "calls (snd (andThen (rp_persist env opts target) (\<lambda>_. rp_metadata env target) sa)) = calls sa @ r"
      and "subseq r [CfgRemovePlugin target, PkgRemovePlugin target, RemoveFetchMetadata target]"
      by auto
    with u sa Resolved show ?thesis by (simp add: andThen_def)
  qed
qed

lemma removePlugin_matched:
  "validatePluginId t plugins = Some target \<Longrightarrow>
   removePlugin env pol opts plugins platformList t s =
     andThen (rp_platforms env pol platformList target)
       (\<lambda>_. andThen (rp_uninstall env target)
       (\<lambda>_. andThen (rp_persist env opts target) (\<lambda>_. rp_metadata env target))) s"
  by (simp add: removePlugin_def rp_validate_def andThen_def resolve_def)

text \<open>
  Claim C8, as amended. A target that resolves to no installed id is rejected with the
  state unchanged, so no uninstall primitive is invoked for it. For a target that resolves
  to the id \<open>target\<close>: the calls of its removal are per-platform uninstalls of \<open>target\<close> for
  a subsequence of the installed platforms, in their order and at most one per platform,
  followed by nothing or by one package-level uninstall and then at most the removals from
  \<open>config.xml\<close>, from \<open>package.json\<close> and from \<open>fetch.json\<close>. When in the run the step of
  every installed platform is fulfilled (reading the plugin's info and merging its
  variables do not throw, the per-platform uninstall is fulfilled), each step started in
  the state that the one before it left, there is exactly one per-platform uninstall for
  each installed platform, and the package-level uninstall comes right after the last of
  them. With \<open>Q_chainmap\<close> a plain chain, that is the case whenever the chain over the
  platforms is fulfilled. Every call has settled when the next one starts, since each
  step takes the state its predecessor returned.
\<close>

theorem C8_uninstall_order:
  "(validatePluginId t plugins = None \<longrightarrow>
      (\<exists>e. removePlugin env pol opts plugins platformList t s = (Rejected e, s)))
   \<and> (validatePluginId t plugins = Some target \<longrightarrow>
      (\<exists>ps rest. subseq ps platformList
         \<and> calls (snd (removePlugin env pol opts plugins platformList t s)) =
             calls s @ map (\<lambda>p. UninstallPlatform p target) ps @ rest
         \<and> subseq rest [UninstallPlugin target, CfgRemovePlugin target, PkgRemovePlugin target,
                         RemoveFetchMetadata target]
         \<and> (rest = [] \<or> hd rest = UninstallPlugin target))
      \<and> (clean_run (removePluginFromPlatform env target) platformList s \<longrightarrow>
          (\<exists>rest. calls (snd (removePlugin env pol opts plugins platformList t s)) =
               calls s @ map (\<lambda>p. UninstallPlatform p target) platformList @ UninstallPlugin target # rest
             \<and> subseq rest [CfgRemovePlugin target, PkgRemovePlugin target, RemoveFetchMetadata target]))
      \<and> (fst (rp_platforms env StopAtRejection platformList target s) = Resolved () \<longrightarrow>
          clean_run (removePluginFromPlatform env target) platformList s))"
proof (intro conjI impI)
  assume "validatePluginId t plugins = None"
  then show "\<exists>e. removePlugin env pol opts plugins platformList t s = (Rejected e, s)"
    by (simp add: removePlugin_unmatched)
next
  assume v: "validatePluginId t plugins = Some target"
  let ?tail = "andThen (rp_uninstall env target)
       (\<lambda>_. andThen (rp_persist env opts target) (\<lambda>_. rp_metadata env target))"
  obtain x sa where p: "rp_platforms env pol platformList target s = (x, sa)"
    by (cases "rp_platforms env pol platformList target s")
  from rp_platforms_calls [of platformList env pol target s] p
  obtain ps where ps: "subseq ps platformList" "calls sa = calls s @ map (\<lambda>p. UninstallPlatform p target) ps"
    by auto
  show "\<exists>ps rest. subseq ps platformList
         \<and> calls (snd (removePlugin env pol opts plugins platformList t s)) =
             calls s @ map (\<lambda>p. UninstallPlatform p target) ps @ rest
         \<and> subseq rest [UninstallPlugin target, CfgRemovePlugin target, PkgRemovePlugin target,
                         RemoveFetchMetadata target]
         \<and> (rest = [] \<or> hd rest = UninstallPlugin target)"
  proof (cases x)
    case (Rejected e)
    with p ps have "subseq ps platformList
         \<and> calls (snd (removePlugin env pol opts plugins platformList t s)) =
             calls s @ map (\<lambda>p. UninstallPlatform p target) ps @ []
         \<and> subseq [] [UninstallPlugin target, CfgRemovePlugin target, PkgRemovePlugin target,
                         RemoveFetchMetadata target]
         \<and> ([] = [] \<or> hd [] = UninstallPlugin target)"
      by (simp add: removePlugin_matched [OF v] andThen_def)
    then show ?thesis by blast
  next
    case (Resolved a)
    from removal_tail_calls [of env target opts sa]
    obtain rest where rest: "calls (snd (?tail sa)) = calls sa @ UninstallPlugin target # rest"
      "subseq rest [CfgRemovePlugin target, PkgRemovePlugin target, RemoveFetchMetadata target]"
      by blast
    with p ps Resolved have "subseq ps platformList
         \<and> calls (snd (removePlugin env pol opts plugins platformList t s)) =
             calls s @ map (\<lambda>p. UninstallPlatform p target) ps @ (UninstallPlugin target # rest)
         \<and> subseq (UninstallPlugin target # rest) [UninstallPlugin target, CfgRemovePlugin target, PkgRemovePlugin target,
                         RemoveFetchMetadata target]
         \<and> (UninstallPlugin target # rest = [] \<or> hd (UninstallPlugin target # rest) = UninstallPlugin target)"
      by (simp add: removePlugin_matched [OF v] andThen_def)
    then show ?thesis by blast
  qed
next
  assume v: "validatePluginId t plugins = Some target"
    and ok: "clean_run (removePluginFromPlatform env target) platformList s"
  let ?tail = "andThen (rp_uninstall env target)
       (\<lambda>_. andThen (rp_persist env opts target) (\<lambda>_. rp_metadata env target))"
  obtain x sa where p: "rp_platforms env pol platformList target s = (x, sa)"
    by (cases "rp_platforms env pol platformList target s")
  from rp_platforms_clean [OF ok, of pol] p
  have x: "x = Resolved ()" and sa: "calls sa = calls s @ map (\<lambda>p. UninstallPlatform p target) platformList"
    by simp_all
  from removal_tail_calls [of env target opts sa]
  obtain rest where rest: "calls (snd (?tail sa)) = calls sa @ UninstallPlugin target # rest"
    "subseq rest [CfgRemovePlugin target, PkgRemovePlugin target, RemoveFetchMetadata target]"
    by blast
  with p x sa have "calls (snd (removePlugin env pol opts plugins platformList t s)) =
               calls s @ map (\<lambda>p. UninstallPlatform p target) platformList @ UninstallPlugin target # rest
             \<and> subseq rest [CfgRemovePlugin target, PkgRemovePlugin target, RemoveFetchMetadata target]"
    by (simp add: removePlugin_matched [OF v] andThen_def)
  then show "\<exists>rest. calls (snd (removePlugin env pol opts plugins platformList t s)) =
               calls s @ map (\<lambda>p. UninstallPlatform p target) platformList @ UninstallPlugin target # rest
             \<and> subseq rest [CfgRemovePlugin target, PkgRemovePlugin target, RemoveFetchMetadata target]"
    by blast
next
  assume "fst (rp_platforms env StopAtRejection platformList target s) = Resolved ()"
  then show "clean_run (removePluginFromPlatform env target) platformList s"
    unfolding rp_platforms_def by (rule chain_stop_clean)
qed

theorem C8_uninstall_order_witness:
  "validatePluginId ''baz'' [''cordova-plugin-foo'', ''cordova-plugin-bar''] = None
   \<and> (\<exists>e. removePlugin rm_env_platform_fails StopAtRejection opts_foo_bar
            [''cordova-plugin-foo'', ''cordova-plugin-bar''] [''android'', ''ios''] ''baz'' proc0 = (Rejected e, proc0))
   \<and> validatePluginId ''bar'' [''cordova-plugin-foo'', ''cordova-plugin-bar''] = Some ''cordova-plugin-bar''
   \<and> fst (rp_platforms rm_env_platform_fails StopAtRejection [''android'', ''ios''] ''cordova-plugin-bar'' proc0) =
        Resolved ()
   \<and> clean_run (removePluginFromPlatform rm_env_platform_fails ''cordova-plugin-bar'') [''android'', ''ios''] proc0
   \<and> (\<exists>rest. calls (snd (removePlugin rm_env_platform_fails StopAtRejection opts_foo_bar
                  [''cordova-plugin-foo'', ''cordova-plugin-bar''] [''android'', ''ios''] ''bar'' proc0)) =
           [UninstallPlatform ''android'' ''cordova-plugin-bar'', UninstallPlatform ''ios'' ''cordova-plugin-bar'',
            UninstallPlugin ''cordova-plugin-bar''] @ rest
         \<and> subseq rest [CfgRemovePlugin ''cordova-plugin-bar'', PkgRemovePlugin ''cordova-plugin-bar'',
                         RemoveFetchMetadata ''cordova-plugin-bar''])
   \<and> \<not> clean_run (removePluginFromPlatform rm_env_platform_fails ''cordova-plugin-foo'') [''android'', ''ios''] proc0"
proof -
  have none: "validatePluginId ''baz'' [''cordova-plugin-foo'', ''cordova-plugin-bar''] = None"
    by code_simp
  have some: "validatePluginId ''bar'' [''cordova-plugin-foo'', ''cordova-plugin-bar''] = Some ''cordova-plugin-bar''"
    by code_simp
  have res: "fst (rp_platforms rm_env_platform_fails StopAtRejection [''android'', ''ios''] ''cordova-plugin-bar'' proc0) =
        Resolved ()"
    by (simp add: rp_platforms_def removePluginFromPlatform_def andThen_def query_def emit_def invoke_def
          rm_env_platform_fails_def rm_env_ok_def proc0_def)
  have foo: "\<not> clean_run (removePluginFromPlatform rm_env_platform_fails ''cordova-plugin-foo'') [''android'', ''ios''] proc0"
    by (simp add: removePluginFromPlatform_def andThen_def query_def emit_def invoke_def
          rm_env_platform_fails_def rm_env_ok_def proc0_def)
  have c0: "calls proc0 = []"
    by (simp add: proc0_def)
  note a = C8_uninstall_order [where t = "''baz''" and plugins = "[''cordova-plugin-foo'', ''cordova-plugin-bar'']"
      and env = rm_env_platform_fails and pol = StopAtRejection
      and opts = opts_foo_bar and platformList = "[''android'', ''ios'']"
      and s = proc0, THEN conjunct1, THEN mp, OF none]
  note b = C8_uninstall_order [where t = "''bar''" and plugins = "[''cordova-plugin-foo'', ''cordova-plugin-bar'']"
      and target = "''cordova-plugin-bar''"
      and env = rm_env_platform_fails and pol = StopAtRejection
      and opts = opts_foo_bar and platformList = "[''android'', ''ios'']"
      and s = proc0, THEN conjunct2, THEN mp, OF some, THEN conjunct2]
  note clean = b [THEN conjunct2, THEN mp, OF res]
  from b [THEN conjunct1, THEN mp, OF clean]
  have b': "\<exists>rest. calls (snd (removePlugin rm_env_platform_fails StopAtRejection opts_foo_bar
                  [''cordova-plugin-foo'', ''cordova-plugin-bar''] [''android'', ''ios''] ''bar'' proc0)) =
           [UninstallPlatform ''android'' ''cordova-plugin-bar'', UninstallPlatform ''ios'' ''cordova-plugin-bar'',
            UninstallPlugin ''cordova-plugin-bar''] @ rest
         \<and> subseq rest [CfgRemovePlugin ''cordova-plugin-bar'', PkgRemovePlugin ''cordova-plugin-bar'',
                         RemoveFetchMetadata ''cordova-plugin-bar'']"
    unfolding c0 by simp
  from none a some res clean b' foo show ?thesis by blast
qed

text \<open>
  The claim as stated fails. The target \<open>foo\<close> resolves to the installed
  \<open>cordova-plugin-foo\<close>, and \<open>android\<close> is installed, but \<open>mergeVariables\<close> throws before
  \<open>uninstallPlatform\<close> is reached: the per-platform uninstall is not invoked for
  \<open>android\<close>. As a plain chain the removal is rejected with no call made; with isolation
  the package-level uninstall is invoked all the same.
\<close>

theorem C8_counterexample:
  "validatePluginId ''foo'' [''cordova-plugin-foo''] = Some ''cordova-plugin-foo''
   \<and> fst (removePlugin rm_env_merge_fails StopAtRejection \<lparr>opt_plugins = [''foo''], opt_save = True\<rparr>
        [''cordova-plugin-foo''] [''android''] ''foo'' proc0) = Rejected (Thrown ''E'')
   \<and> calls (snd (removePlugin rm_env_merge_fails StopAtRejection \<lparr>opt_plugins = [''foo''], opt_save = True\<rparr>
        [''cordova-plugin-foo''] [''android''] ''foo'' proc0)) = []
   \<and> fst (removePlugin rm_env_merge_fails IsolateRejections \<lparr>opt_plugins = [''foo''], opt_save = True\<rparr>
        [''cordova-plugin-foo''] [''android''] ''foo'' proc0) = Resolved ()
   \<and> calls (snd (removePlugin rm_env_merge_fails IsolateRejections \<lparr>opt_plugins = [''foo''], opt_save = True\<rparr>
        [''cordova-plugin-foo''] [''android''] ''foo'' proc0)) =
       [UninstallPlugin ''cordova-plugin-foo'', RemoveFetchMetadata ''cordova-plugin-foo'']"
proof -
  have some: "validatePluginId ''foo'' [''cordova-plugin-foo''] = Some ''cordova-plugin-foo''"
    by code_simp
  have stop: "removePlugin rm_env_merge_fails StopAtRejection \<lparr>opt_plugins = [''foo''], opt_save = True\<rparr>
        [''cordova-plugin-foo''] [''android''] ''foo'' proc0 =
      (Rejected (Thrown ''E''),
       proc0\<lparr>events := [(''verbose'', ''Calling plugman.uninstall on plugin '' @ dq @ ''cordova-plugin-foo'' @ dq
                        @ '' for platform '' @ dq @ ''android'' @ dq)]\<rparr>)"
    by (simp add: removePlugin_matched [OF some] rp_platforms_def removePluginFromPlatform_def
          andThen_def query_def emit_def rm_env_merge_fails_def rm_env_ok_def proc0_def)
  have iso: "removePlugin rm_env_merge_fails IsolateRejections \<lparr>opt_plugins = [''foo''], opt_save = True\<rparr>
        [''cordova-plugin-foo''] [''android''] ''foo'' proc0 =
      (Resolved (), proc0\<lparr>calls := [UninstallPlugin ''cordova-plugin-foo'', RemoveFetchMetadata ''cordova-plugin-foo''],
          events := [(''verbose'', ''Calling plugman.uninstall on plugin '' @ dq @ ''cordova-plugin-foo'' @ dq
                        @ '' for platform '' @ dq @ ''android'' @ dq),
                     (''verbose'', ''Removing plugin cordova-plugin-foo from fetch.json'')],
          failures := [(''android'', Thrown ''E'')], exitCode := 1\<rparr>)"
    by (simp add: removePlugin_matched [OF some] rp_platforms_def removePluginFromPlatform_def
          rp_uninstall_def rp_persist_def rp_metadata_def persistRemovalToCfg_def persistRemovalToPkg_def
          andThen_def query_def emit_def invoke_def resolve_def rm_env_merge_fails_def rm_env_ok_def proc0_def)
  from some stop iso show ?thesis by (simp add: proc0_def)
qed

subsection \<open>Plugin removal: a failing step\<close>

lemma removePlugin_rejected:
  assumes "removePlugin env pol opts plugins platformList t sa = (Rejected e, sb)"
  shows "rp_validate env plugins t sa = (Rejected e, sb)
     \<or> (\<exists>target. rp_validate env plugins t sa = (Resolved target, sa)
          \<and> (rp_platforms env pol platformList target sa = (Rejected e, sb)
             \<or> (\<exists>sp. rp_platforms env pol platformList target sa = (Resolved (), sp)
                  \<and> (rp_uninstall env target sp = (Rejected e, sb)
                     \<or> (\<exists>su. rp_uninstall env target sp = (Resolved (), su)
                          \<and> (rp_persist env opts target su = (Rejected e, sb)
                             \<or> (\<exists>sv. rp_persist env opts target su = (Resolved (), sv)
                                  \<and> rp_metadata env target sv = (Rejected e, sb))))))))"
proof (cases "validatePluginId t plugins")
  case None
  with assms show ?thesis
    by (simp add: removePlugin_def rp_validate_def andThen_def reject_def)
next
  case (Some target)
  then have v: "rp_validate env plugins t sa = (Resolved target, sa)"
    by (simp add: rp_validate_def resolve_def)
  from assms v have r: "andThen (rp_platforms env pol platformList target)
       (\<lambda>_. andThen (rp_uninstall env target)
       (\<lambda>_. andThen (rp_persist env opts target) (\<lambda>_. rp_metadata env target))) sa = (Rejected e, sb)"
    by (simp add: removePlugin_def andThen_def)
  obtain x sp where p: "rp_platforms env pol platformList target sa = (x, sp)"
    by (cases "rp_platforms env pol platformList target sa")
  obtain y su where u: "rp_uninstall env target sp = (y, su)"
    by (cases "rp_uninstall env target sp")
  obtain z sv where q: "rp_persist env opts target su = (z, sv)"
    by (cases "rp_persist env opts target su")
  from r p u q have "rp_platforms env pol platformList target sa = (Rejected e, sb)
             \<or> (\<exists>sp. rp_platforms env pol platformList target sa = (Resolved (), sp)
                  \<and> (rp_uninstall env target sp = (Rejected e, sb)
                     \<or> (\<exists>su. rp_uninstall env target sp = (Resolved (), su)
                          \<and> (rp_persist env opts target su = (Rejected e, sb)
                             \<or> (\<exists>sv. rp_persist env opts target su = (Resolved (), sv)
                                  \<and> rp_metadata env target sv = (Rejected e, sb))))))"
    by (cases x; cases y; cases z) (simp_all add: andThen_def)
  with v show ?thesis by blast
qed

lemma chain_append_resolved:
  "Q_chainmap pol pre f s = (Resolved (), sa) \<Longrightarrow>
   Q_chainmap pol (pre @ post) f s = Q_chainmap pol post f sa"
proof (induction pre arbitrary: s)
  case Nil
  then show ?case by simp
next
  case (Cons x pre)
  obtain r sx where f: "f x s = (r, sx)" by (cases "f x s")
  show ?case
  proof (cases r)
    case (Resolved u)
    with Cons f show ?thesis by simp
  next
    case (Rejected e)
    show ?thesis
    proof (cases pol)
      case StopAtRejection
      with Cons.prems f Rejected show ?thesis by simp
    next
      case IsolateRejections
      with Cons f Rejected show ?thesis by simp
    qed
  qed
qed

lemma chain_isolate_resolves:
  "fst (Q_chainmap IsolateRejections xs f s) = Resolved ()"
proof (induction xs arbitrary: s)
  case Nil
  show ?case by simp
next
  case (Cons x xs)
  obtain r sx where f: "f x s = (r, sx)" by (cases "f x s")
  with Cons show ?case by (cases r) simp_all
qed

text \<open>
  Claim C2, as amended. When the removal of a target is rejected, the rejection is the
  rejection of one of its five steps (validation, the per-platform uninstalls, the
  package-level uninstall, persistence, metadata cleanup) after the steps before it were
  fulfilled, and the state is the one that step left: the target's later steps have not
  run, and the error is the step's own, with no mark of the step. What follows depends on
  \<open>Q_chainmap\<close>: as a plain promise chain the invocation is rejected with that error at
  that state, and no later target is processed; as a fold with isolation it records the
  target with the error, marks the process failed and goes on with the targets after it,
  and resolves.
\<close>

theorem C2_removal_failure:
  assumes "Q_chainmap pol pre (removePlugin env pol opts plugins platformList) s = (Resolved (), sa)"
    and "removePlugin env pol opts plugins platformList t sa = (Rejected e, sb)"
  shows "(rp_validate env plugins t sa = (Rejected e, sb)
     \<or> (\<exists>target. rp_validate env plugins t sa = (Resolved target, sa)
          \<and> (rp_platforms env pol platformList target sa = (Rejected e, sb)
             \<or> (\<exists>sp. rp_platforms env pol platformList target sa = (Resolved (), sp)
                  \<and> (rp_uninstall env target sp = (Rejected e, sb)
                     \<or> (\<exists>su. rp_uninstall env target sp = (Resolved (), su)
                          \<and> (rp_persist env opts target su = (Rejected e, sb)
                             \<or> (\<exists>sv. rp_persist env opts target su = (Resolved (), sv)
                                  \<and> rp_metadata env target sv = (Rejected e, sb)))))))))
   \<and> (pol = StopAtRejection \<longrightarrow>
        Q_chainmap pol (pre @ t # post) (removePlugin env pol opts plugins platformList) s = (Rejected e, sb))
   \<and> (pol = IsolateRejections \<longrightarrow>
        Q_chainmap pol (pre @ t # post) (removePlugin env pol opts plugins platformList) s =
          Q_chainmap pol post (removePlugin env pol opts plugins platformList)
            (sb\<lparr>failures := failures sb @ [(t, e)], exitCode := 1\<rparr>)
        \<and> fst (Q_chainmap pol (pre @ t # post) (removePlugin env pol opts plugins platformList) s) = Resolved ())"
proof (intro conjI impI)
  show "rp_validate env plugins t sa = (Rejected e, sb)
     \<or> (\<exists>target. rp_validate env plugins t sa = (Resolved target, sa)
          \<and> (rp_platforms env pol platformList target sa = (Rejected e, sb)
             \<or> (\<exists>sp. rp_platforms env pol platformList target sa = (Resolved (), sp)
                  \<and> (rp_uninstall env target sp = (Rejected e, sb)
                     \<or> (\<exists>su. rp_uninstall env target sp = (Resolved (), su)
                          \<and> (rp_persist env opts target su = (Rejected e, sb)
                             \<or> (\<exists>sv. rp_persist env opts target su = (Resolved (), sv)
                                  \<and> rp_metadata env target sv = (Rejected e, sb))))))))"
    using assms(2) by (rule removePlugin_rejected)
next
  assume "pol = StopAtRejection"
  with assms(2) chain_append_resolved [OF assms(1), of "t # post"]
  show "Q_chainmap pol (pre @ t # post) (removePlugin env pol opts plugins platformList) s = (Rejected e, sb)"
    by simp
next
  assume "pol = IsolateRejections"
  with assms(2) chain_append_resolved [OF assms(1), of "t # post"]
  show "Q_chainmap pol (pre @ t # post) (removePlugin env pol opts plugins platformList) s =
          Q_chainmap pol post (removePlugin env pol opts plugins platformList)
            (sb\<lparr>failures := failures sb @ [(t, e)], exitCode := 1\<rparr>)"
    by simp
next
  assume "pol = IsolateRejections"
  then show "fst (Q_chainmap pol (pre @ t # post) (removePlugin env pol opts plugins platformList) s) = Resolved ()"
    by (simp only: chain_isolate_resolves)
qed

lemmas rm_eval = remove_def removePlugin_def rp_validate_def rp_platforms_def rp_uninstall_def
  rp_persist_def rp_metadata_def removePluginFromPlatform_def persistRemovalToCfg_def
  persistRemovalToPkg_def andThen_def query_def emit_def invoke_def resolve_def reject_def
  rm_env_ok_def proc0_def opts_foo_bar_def

lemma validate_foo_bar:
  "validatePluginId ''foo'' [''cordova-plugin-foo'', ''cordova-plugin-bar''] = Some ''cordova-plugin-foo''"
  "validatePluginId ''bar'' [''cordova-plugin-foo'', ''cordova-plugin-bar''] = Some ''cordova-plugin-bar''"
  by code_simp+

text \<open>
  The claim as stated fails, with the targets \<open>foo\<close> and \<open>bar\<close>, both installed. As a plain
  chain, the failed package-level uninstall of \<open>cordova-plugin-foo\<close> rejects the
  invocation and \<open>bar\<close> is never processed. Under either reading of \<open>Q_chainmap\<close>, a run
  in which the package-level uninstall fails and a run in which the persistence step
  fails end in the same result and the same state; with isolation what is recorded is
  the target with the error. With isolation, a failed per-platform uninstall does not
  abort the target's later steps: the failure is recorded against the platform.
\<close>

theorem C2_counterexample:
  "fst (remove rm_env_uninstall_fails StopAtRejection (Some [''foo'', ''bar'']) opts_foo_bar proc0) =
     Rejected (Thrown ''E'')
   \<and> calls (snd (remove rm_env_uninstall_fails StopAtRejection (Some [''foo'', ''bar'']) opts_foo_bar proc0)) =
       [Fire ''before_plugin_rm'', UninstallPlatform ''android'' ''cordova-plugin-foo'',
        UninstallPlugin ''cordova-plugin-foo'']
   \<and> remove rm_env_uninstall_fails StopAtRejection (Some [''foo'', ''bar'']) opts_foo_bar proc0 =
       remove rm_env_persist_fails StopAtRejection (Some [''foo'', ''bar'']) opts_foo_bar proc0
   \<and> remove rm_env_uninstall_fails IsolateRejections (Some [''foo'', ''bar'']) opts_foo_bar proc0 =
       remove rm_env_persist_fails IsolateRejections (Some [''foo'', ''bar'']) opts_foo_bar proc0
   \<and> failures (snd (remove rm_env_uninstall_fails IsolateRejections (Some [''foo'', ''bar'']) opts_foo_bar proc0)) =
       [(''foo'', Thrown ''E'')]
   \<and> calls (snd (remove rm_env_platform_fails IsolateRejections (Some [''foo'', ''bar'']) opts_foo_bar proc0)) =
       [Fire ''before_plugin_rm'',
        UninstallPlatform ''android'' ''cordova-plugin-foo'', UninstallPlugin ''cordova-plugin-foo'',
        RemoveFetchMetadata ''cordova-plugin-foo'',
        UninstallPlatform ''android'' ''cordova-plugin-bar'', UninstallPlugin ''cordova-plugin-bar'',
        RemoveFetchMetadata ''cordova-plugin-bar'', Fire ''after_plugin_rm'']
   \<and> failures (snd (remove rm_env_platform_fails IsolateRejections (Some [''foo'', ''bar'']) opts_foo_bar proc0)) =
       [(''android'', Thrown ''E'')]"
proof -
  let ?ef = "(''verbose'', ''Calling plugman.uninstall on plugin '' @ dq @ ''cordova-plugin-foo'' @ dq
                @ '' for platform '' @ dq @ ''android'' @ dq)"
  let ?eb = "(''verbose'', ''Calling plugman.uninstall on plugin '' @ dq @ ''cordova-plugin-bar'' @ dq
                @ '' for platform '' @ dq @ ''android'' @ dq)"
  let ?stop = "(Rejected (Thrown ''E''),
       proc0\<lparr>calls := [Fire ''before_plugin_rm'', UninstallPlatform ''android'' ''cordova-plugin-foo'',
                        UninstallPlugin ''cordova-plugin-foo''],
              events := [?ef]\<rparr>)"
  let ?iso = "(Resolved (),
       proc0\<lparr>calls := [Fire ''before_plugin_rm'', UninstallPlatform ''android'' ''cordova-plugin-foo'',
                        UninstallPlugin ''cordova-plugin-foo'',
                        UninstallPlatform ''android'' ''cordova-plugin-bar'', UninstallPlugin ''cordova-plugin-bar'',
                        RemoveFetchMetadata ''cordova-plugin-bar'', Fire ''after_plugin_rm''],
              events := [?ef, ?eb, (''verbose'', ''Removing plugin cordova-plugin-bar from fetch.json'')],
              exitCode := 1, failures := [(''foo'', Thrown ''E'')]\<rparr>)"
  have us: "remove rm_env_uninstall_fails StopAtRejection (Some [''foo'', ''bar'']) opts_foo_bar proc0 = ?stop"
    by (simp add: rm_eval rm_env_uninstall_fails_def validate_foo_bar)
  have ps: "remove rm_env_persist_fails StopAtRejection (Some [''foo'', ''bar'']) opts_foo_bar proc0 = ?stop"
    by (simp add: rm_eval rm_env_persist_fails_def validate_foo_bar)
  have ui: "remove rm_env_uninstall_fails IsolateRejections (Some [''foo'', ''bar'']) opts_foo_bar proc0 = ?iso"
    by (simp add: rm_eval rm_env_uninstall_fails_def validate_foo_bar)
  have pi: "remove rm_env_persist_fails IsolateRejections (Some [''foo'', ''bar'']) opts_foo_bar proc0 = ?iso"
    by (simp add: rm_eval rm_env_persist_fails_def validate_foo_bar)
  have fi: "remove rm_env_platform_fails IsolateRejections (Some [''foo'', ''bar'']) opts_foo_bar proc0 =
     (Resolved (),
       proc0\<lparr>calls := [Fire ''before_plugin_rm'',
                        UninstallPlatform ''android'' ''cordova-plugin-foo'', UninstallPlugin ''cordova-plugin-foo'',
                        RemoveFetchMetadata ''cordova-plugin-foo'',
                        UninstallPlatform ''android'' ''cordova-plugin-bar'', UninstallPlugin ''cordova-plugin-bar'',
                        RemoveFetchMetadata ''cordova-plugin-bar'', Fire ''after_plugin_rm''],
              events := [?ef, (''verbose'', ''Removing plugin cordova-plugin-foo from fetch.json''),
                         ?eb, (''verbose'', ''Removing plugin cordova-plugin-bar from fetch.json'')],
              exitCode := 1, failures := [(''android'', Thrown ''E'')]\<rparr>)"
    by (simp add: rm_eval rm_env_platform_fails_def validate_foo_bar)
  show ?thesis
    unfolding us ps ui pi fi by (simp add: proc0_def)
qed

theorem C2_removal_failure_witness:
  "Q_chainmap StopAtRejection [''bar'']
      (removePlugin rm_env_uninstall_fails StopAtRejection opts_foo_bar
         [''cordova-plugin-foo'', ''cordova-plugin-bar''] [''android'']) proc0 = (Resolved (), st_bar_removed)
   \<and> removePlugin rm_env_uninstall_fails StopAtRejection opts_foo_bar
         [''cordova-plugin-foo'', ''cordova-plugin-bar''] [''android''] ''foo'' st_bar_removed =
       (Rejected (Thrown ''E''), st_foo_failed)
   \<and> Q_chainmap StopAtRejection [''bar'', ''foo'', ''baz'']
        (removePlugin rm_env_uninstall_fails StopAtRejection opts_foo_bar
           [''cordova-plugin-foo'', ''cordova-plugin-bar''] [''android'']) proc0 =
       (Rejected (Thrown ''E''), st_foo_failed)
   \<and> Q_chainmap IsolateRejections [''bar'']
        (removePlugin rm_env_uninstall_fails IsolateRejections opts_foo_bar
           [''cordova-plugin-foo'', ''cordova-plugin-bar''] [''android'']) proc0 = (Resolved (), st_bar_removed)
   \<and> removePlugin rm_env_uninstall_fails IsolateRejections opts_foo_bar
         [''cordova-plugin-foo'', ''cordova-plugin-bar''] [''android''] ''foo'' st_bar_removed =
       (Rejected (Thrown ''E''), st_foo_failed)
   \<and> Q_chainmap IsolateRejections [''bar'', ''foo'', ''baz'']
        (removePlugin rm_env_uninstall_fails IsolateRejections opts_foo_bar
           [''cordova-plugin-foo'', ''cordova-plugin-bar''] [''android'']) proc0 =
       Q_chainmap IsolateRejections [''baz'']
        (removePlugin rm_env_uninstall_fails IsolateRejections opts_foo_bar
           [''cordova-plugin-foo'', ''cordova-plugin-bar''] [''android''])
        (st_foo_failed\<lparr>failures := failures st_foo_failed @ [(''foo'', Thrown ''E'')], exitCode := 1\<rparr>)
   \<and> fst (Q_chainmap IsolateRejections [''bar'', ''foo'', ''baz'']
        (removePlugin rm_env_uninstall_fails IsolateRejections opts_foo_bar
           [''cordova-plugin-foo'', ''cordova-plugin-bar''] [''android'']) proc0) = Resolved ()"
proof -
  have bar: "Q_chainmap pol [''bar'']
      (removePlugin rm_env_uninstall_fails pol opts_foo_bar
         [''cordova-plugin-foo'', ''cordova-plugin-bar''] [''android'']) proc0 = (Resolved (), st_bar_removed)" for pol
    by (cases pol) (simp_all add: rm_eval rm_env_uninstall_fails_def validate_foo_bar st_bar_removed_def)
  have foo: "removePlugin rm_env_uninstall_fails pol opts_foo_bar
         [''cordova-plugin-foo'', ''cordova-plugin-bar''] [''android''] ''foo'' st_bar_removed =
       (Rejected (Thrown ''E''), st_foo_failed)" for pol
    by (cases pol) (simp_all add: rm_eval rm_env_uninstall_fails_def validate_foo_bar st_bar_removed_def
          st_foo_failed_def)
  note stop = C2_removal_failure [where pol = StopAtRejection and pre = "[''bar'']" and t = "''foo''"
      and post = "[''baz'']", OF bar foo, THEN conjunct2, THEN conjunct1, THEN mp, OF refl,
      unfolded append.simps]
  note iso = C2_removal_failure [where pol = IsolateRejections and pre = "[''bar'']" and t = "''foo''"
      and post = "[''baz'']", OF bar foo, THEN conjunct2, THEN conjunct2, THEN mp, OF refl,
      unfolded append.simps]
  from bar [of StopAtRejection] foo [of StopAtRejection] stop bar [of IsolateRejections]
    foo [of IsolateRejections] iso
  show ?thesis by blast
qed

subsection \<open>Platform removal: which name each call receives\<close>


lemma adds_resolve [simp]: "adds P s (resolve a)"
  by (simp add: adds_def resolve_def)

lemma adds_reject [simp]: "adds P s (reject e)"
  by (simp add: adds_def reject_def)


lemma adds_query [simp]: "adds P s (query q)"
  by (simp add: adds_def query_def)





























end
